theory Spec2Isabelle
  imports Main "HOL-Library.Sublist"
begin

chapter \<open>The Distrobox backup tool: listing, backup, restore and conversion\<close>

text \<open>
  The program (main.go) is an interactive tool that drives distrobox and a container
  runtime through external commands. This theory embeds the listing of the containers
  (\<open>getContainers\<close>), the command runner (\<open>runCommand\<close>) and the workflows
  \<open>handleBackup\<close>, \<open>handleRestore\<close> and \<open>handleEdit\<close> with the helpers they call,
  and proves what each of them does on its paths. A workflow is a function from the
  state before to the state after; the state holds the remaining input and the events of
  the run in order, so that a theorem can say which commands were executed, in which
  order, and which were not.
\<close>

section \<open>Go library functions used by the program\<close>

text \<open>
  Go strings are byte sequences; they are modelled as \<open>string\<close> (a list of 8-bit
  characters). The functions of package \<open>strings\<close> that the program calls are
  modelled on bytes, in UTF-8 where they look at runes.
\<close>

text \<open>\<open>strings.Index(s, sep)\<close>: the byte offset of the first occurrence of \<open>sep\<close>
  in \<open>s\<close>; Go's \<open>-1\<close> is \<open>None\<close>.\<close>

fun Index :: "string \<Rightarrow> string \<Rightarrow> nat option" where
  "Index [] sep = (if sep = [] then Some 0 else None)"
| "Index (c # cs) sep =
     (if prefix sep (c # cs) then Some 0 else map_option Suc (Index cs sep))"

text \<open>\<open>strings.Contains(s, substr)\<close> is \<open>Index(s, substr) >= 0\<close>.\<close>

definition Contains :: "string \<Rightarrow> string \<Rightarrow> bool" where
  "Contains s substr = (Index s substr \<noteq> None)"

text \<open>\<open>strings.HasPrefix\<close>.\<close>

definition HasPrefix :: "string \<Rightarrow> string \<Rightarrow> bool" where
  "HasPrefix s p = prefix p s"

text \<open>\<open>strings.SplitN(s, sep, n)\<close> for a non-empty separator and \<open>n \<ge> 0\<close>: at most
  \<open>n\<close> pieces, the last one holding the unsplit remainder.\<close>

fun SplitN :: "string \<Rightarrow> string \<Rightarrow> nat \<Rightarrow> string list" where
  "SplitN s sep 0 = []"
| "SplitN s sep (Suc 0) = [s]"
| "SplitN s sep (Suc (Suc n)) =
     (case Index s sep of
        None \<Rightarrow> [s]
      | Some m \<Rightarrow> take m s # SplitN (drop (m + length sep) s) sep (Suc n))"

text \<open>\<open>strings.Split(s, sep)\<close>: all pieces between the non-overlapping occurrences
  of \<open>sep\<close>, found from the left. With an empty separator Go splits after each UTF-8
  sequence; the program never does that, and the model splits after each byte.\<close>

function Split :: "string \<Rightarrow> string \<Rightarrow> string list" where
  "Split s sep =
     (if sep = [] then map (\<lambda>c. [c]) s
      else case Index s sep of
             None \<Rightarrow> [s]
           | Some m \<Rightarrow> take m s # Split (drop (m + length sep) s) sep)"
  by pat_completeness auto
termination
proof (relation "measure (\<lambda>(s, sep). length s)")
  show "wf (measure (\<lambda>(s, sep). length s))" by simp
next
  fix s sep :: string and m :: nat
  assume "sep \<noteq> []" and "Index s sep = Some m"
  then have "s \<noteq> []" by (cases s) auto
  with \<open>sep \<noteq> []\<close> show "((drop (m + length sep) s, sep), (s, sep)) \<in> measure (\<lambda>(s, sep). length s)"
    by (cases sep) auto
qed

declare Split.simps [simp del]

text \<open>\<open>strings.Join(elems, sep)\<close>.\<close>

fun Join :: "string list \<Rightarrow> string \<Rightarrow> string" where
  "Join [] sep = []"
| "Join [x] sep = x"
| "Join (x # y # ys) sep = x @ sep @ Join (y # ys) sep"

text \<open>\<open>strings.TrimSpace\<close> removes the leading and the trailing white space, as
  Unicode defines it. In UTF-8 these are the six ASCII characters space, \<open>\t\<close>,
  \<open>\n\<close>, \<open>\v\<close>, \<open>\f\<close>, \<open>\r\<close>, the two-byte U+0085 and U+00A0, and the
  three-byte U+1680, U+2000 to U+200A, U+2028, U+2029, U+202F, U+205F and U+3000. A byte
  that starts none of these sequences ends the trimming, as an invalid or other rune does
  in Go; the left end is trimmed first.\<close>

definition spaceSeqs :: "string list" where
  "spaceSeqs =
     [[CHR 0x20], [CHR 0x09], [CHR 0x0A], [CHR 0x0B], [CHR 0x0C], [CHR 0x0D],
      [CHR 0xC2, CHR 0x85], [CHR 0xC2, CHR 0xA0],
      [CHR 0xE1, CHR 0x9A, CHR 0x80],
      [CHR 0xE2, CHR 0x80, CHR 0x80], [CHR 0xE2, CHR 0x80, CHR 0x81],
      [CHR 0xE2, CHR 0x80, CHR 0x82], [CHR 0xE2, CHR 0x80, CHR 0x83],
      [CHR 0xE2, CHR 0x80, CHR 0x84], [CHR 0xE2, CHR 0x80, CHR 0x85],
      [CHR 0xE2, CHR 0x80, CHR 0x86], [CHR 0xE2, CHR 0x80, CHR 0x87],
      [CHR 0xE2, CHR 0x80, CHR 0x88], [CHR 0xE2, CHR 0x80, CHR 0x89],
      [CHR 0xE2, CHR 0x80, CHR 0x8A],
      [CHR 0xE2, CHR 0x80, CHR 0xA8], [CHR 0xE2, CHR 0x80, CHR 0xA9],
      [CHR 0xE2, CHR 0x80, CHR 0xAF],
      [CHR 0xE2, CHR 0x81, CHR 0x9F],
      [CHR 0xE3, CHR 0x80, CHR 0x80]]"

function trimLeft :: "string list \<Rightarrow> string \<Rightarrow> string" where
  "trimLeft seqs s =
     (case find (\<lambda>q. q \<noteq> [] \<and> prefix q s) seqs of
        None \<Rightarrow> s
      | Some q \<Rightarrow> trimLeft seqs (drop (length q) s))"
  by pat_completeness auto
termination
proof (relation "measure (\<lambda>(seqs, s). length s)")
  show "wf (measure (\<lambda>(seqs, s). length s))" by simp
next
  fix seqs :: "string list" and s q :: string
  assume "find (\<lambda>q. q \<noteq> [] \<and> prefix q s) seqs = Some q"
  then have "q \<noteq> []" and "prefix q s" by (auto simp: find_Some_iff)
  then have "0 < length q" and "length q \<le> length s" by (auto simp: prefix_def)
  then have "length s - length q < length s" by linarith
  then show "((seqs, drop (length q) s), (seqs, s)) \<in> measure (\<lambda>(seqs, s). length s)"
    by simp
qed

declare trimLeft.simps [simp del]

definition TrimSpace :: "string \<Rightarrow> string" where
  "TrimSpace s = rev (trimLeft (map rev spaceSeqs) (rev (trimLeft spaceSeqs s)))"

text \<open>\<open>strings.ToLower\<close> on ASCII letters. The program only compares its result with
  \<open>y\<close>, and no rune beyond ASCII has that lower case, so the comparison comes out as in
  Go.\<close>

definition toLowerChar :: "char \<Rightarrow> char" where
  "toLowerChar c =
     (if 65 \<le> (of_char c :: nat) \<and> (of_char c :: nat) \<le> 90
      then char_of ((of_char c :: nat) + 32) else c)"

definition ToLower :: "string \<Rightarrow> string" where
  "ToLower s = map toLowerChar s"

text \<open>Decimal rendering of an integer, as the verb \<open>%d\<close> prints it.\<close>

function decDigits :: "int \<Rightarrow> string" where
  "decDigits i =
     (if i < 10 then [''0123456789'' ! nat i]
      else decDigits (i div 10) @ [''0123456789'' ! nat (i mod 10)])"
  by pat_completeness auto
termination
  by (relation "measure nat") auto

declare decDigits.simps [simp del]

definition decInt :: "int \<Rightarrow> string" where
  "decInt i = (if i < 0 then CHR ''-'' # decDigits (- i) else decDigits i)"

text \<open>\<open>strconv.Atoi\<close>: an optional sign followed by one or more decimal digits, within
  the range of a 64-bit \<open>int\<close>; anything else is an error (\<open>None\<close>).\<close>

definition isDigit :: "char \<Rightarrow> bool" where
  "isDigit c = (c \<in> set ''0123456789'')"

definition digitsValue :: "string \<Rightarrow> int" where
  "digitsValue ds = foldl (\<lambda>acc c. 10 * acc + ((of_char c :: int) - 48)) 0 ds"

definition Atoi :: "string \<Rightarrow> int option" where
  "Atoi s =
     (let neg = (s \<noteq> [] \<and> hd s = CHR ''-'');
          ds = (if s \<noteq> [] \<and> (hd s = CHR ''-'' \<or> hd s = CHR ''+'') then tl s else s);
          v = (if neg then - digitsValue ds else digitsValue ds)
      in if ds = [] \<or> \<not> list_all isDigit ds then None
         else if v < - (2 ^ 63) \<or> 2 ^ 63 - 1 < v then None
         else Some v)"

text \<open>\<open>fmt.Sprintf\<close> for the verbs the program uses (\<open>%s\<close>, \<open>%d\<close>, \<open>%v\<close>) with
  operands of the matching kind. Every format string of the program is a constant with as
  many verbs as operands and none ends in a percent sign; a verb left without operand
  prints Go's \<open>%!v(MISSING)\<close> marker.\<close>

datatype operand = Str string | Dec int

fun render :: "operand \<Rightarrow> string" where
  "render (Str s) = s"
| "render (Dec i) = decInt i"

fun Sprintf :: "string \<Rightarrow> operand list \<Rightarrow> string" where
  "Sprintf [] ops = []"
| "Sprintf [c] ops = [c]"
| "Sprintf (c # v # rest) ops =
     (if c = CHR ''%'' then
        (case ops of
           [] \<Rightarrow> ''%!'' @ [v] @ ''(MISSING)'' @ Sprintf rest []
         | x # xs \<Rightarrow> render x @ Sprintf rest xs)
      else c # Sprintf (v # rest) ops)"

section \<open>Data model and the outside world\<close>

text \<open>The struct \<open>Container\<close> (main.go, lines 34-38).\<close>

record Container =
  Name :: string
  ID :: string
  Image :: string

text \<open>An \<open>error\<close> value is represented by the text its \<open>Error()\<close> method returns;
  \<open>None\<close> is Go's \<open>nil\<close> error.\<close>

type_synonym error = string

text \<open>
  Everything the program reads from its surroundings is a field of \<open>world\<close>: the two
  package variables set at start-up by \<open>checkDependencies\<close>, the outcome of running an
  external command (\<open>combinedOutput\<close> for \<open>exec.Cmd.CombinedOutput\<close>, \<open>cmdOutput\<close> for
  \<open>exec.Cmd.Output\<close>, which captures standard output only), the file-system queries
  \<open>os.UserHomeDir\<close>, \<open>os.Stat\<close> (\<open>statOk p\<close>: it returns no error; \<open>isDir p\<close>: the
  entry is a directory), \<open>os.RemoveAll\<close>, the clock \<open>time.Now().Unix()\<close> and the library
  function \<open>filepath.Join\<close>. A workflow never issues the same command line twice in one
  run and reads the clock once, and the answers of the file system are taken not to change
  between two identical queries; so each answer is a function of the query alone. As in
  Go, the string returned with an error by \<open>os.UserHomeDir\<close> is empty.
\<close>

record world =
  containerRuntime :: string
  guiFilePicker :: string
  combinedOutput :: "string \<Rightarrow> string list \<Rightarrow> string \<times> error option"
  cmdOutput :: "string \<Rightarrow> string list \<Rightarrow> string \<times> error option"
  userHomeDir :: "string \<times> error option"
  statOk :: "string \<Rightarrow> bool"
  isDir :: "string \<Rightarrow> bool"
  removeAll :: "string \<Rightarrow> error option"
  unixNow :: int
  pathJoin :: "string list \<Rightarrow> string"

text \<open>
  The effects of a run are recorded, in order, as events: an external process executed
  through \<open>runCommand\<close> (with its captured output and error), one executed through
  \<open>exec.Cmd.Output\<close> by a file picker, a recursive directory removal, the progress
  indicator started by \<open>go showSpinner(msg, done)\<close>, a send \<open>done <- true\<close>, and the four
  kinds of log line. Screen clearing, prompts printed with \<open>fmt.Printf\<close>, the listing of
  containers on the screen and \<open>time.Sleep\<close> are cosmetic and leave no event.
\<close>

datatype event =
    Exec string "string list" "string \<times> error option"
  | Picker string "string list"
  | RemoveAll string "error option"
  | Spawn string
  | Signal
  | LogError string
  | LogWarning string
  | LogInfo string
  | LogSuccess string

text \<open>
  The state threaded through a run: the lines still to come on standard input (an
  interactive terminal, which hands over one line per read; at end of input a read yields
  the empty string), the events so far, whether a progress-indicator goroutine is polling
  the current \<open>done\<close> channel, and whether the main goroutine is blocked for ever.

  The channel \<open>done\<close> is unbuffered and \<open>showSpinner\<close> (lines 515-529) receives from it
  once and returns. A send therefore completes iff an indicator is still polling, and ends
  that indicator; a send with no receiver left never completes, and nothing after it in the
  workflow is executed. Once \<open>blocked\<close> holds, every later operation leaves the state
  unchanged.
\<close>

record state =
  stdin :: "string list"
  trace :: "event list"
  listening :: bool
  blocked :: bool

definition initial :: "string list \<Rightarrow> state" where
  "initial inp = \<lparr>stdin = inp, trace = [], listening = False, blocked = False\<rparr>"

definition emit :: "event \<Rightarrow> state \<Rightarrow> state" where
  "emit e s = (if blocked s then s else s\<lparr>trace := trace s @ [e]\<rparr>)"

definition logError :: "string \<Rightarrow> state \<Rightarrow> state" where
  "logError msg = emit (LogError msg)"

definition logWarning :: "string \<Rightarrow> state \<Rightarrow> state" where
  "logWarning msg = emit (LogWarning msg)"

definition logInfo :: "string \<Rightarrow> state \<Rightarrow> state" where
  "logInfo msg = emit (LogInfo msg)"

definition logSuccess :: "string \<Rightarrow> state \<Rightarrow> state" where
  "logSuccess msg = emit (LogSuccess msg)"

text \<open>\<open>done := make(chan bool); go showSpinner(msg, done)\<close>.\<close>

definition spawnSpinner :: "string \<Rightarrow> state \<Rightarrow> state" where
  "spawnSpinner msg s = (if blocked s then s else (emit (Spawn msg) s)\<lparr>listening := True\<rparr>)"

text \<open>\<open>done <- true\<close>.\<close>

definition sendDone :: "state \<Rightarrow> state" where
  "sendDone s =
     (if blocked s then s
      else if listening s then (emit Signal s)\<lparr>listening := False\<rparr>
      else (emit Signal s)\<lparr>blocked := True\<rparr>)"

text \<open>\<open>readUserInput\<close> (lines 721-725).\<close>

definition readUserInput :: "state \<Rightarrow> string \<times> state" where
  "readUserInput s =
     (if blocked s then ([], s)
      else case stdin s of
             [] \<Rightarrow> ([], s)
           | l # ls \<Rightarrow> (TrimSpace l, s\<lparr>stdin := ls\<rparr>))"

text \<open>\<open>confirmAction\<close> (lines 727-729).\<close>

definition confirmAction :: "state \<Rightarrow> bool \<times> state" where
  "confirmAction s = (case readUserInput s of (inp, s') \<Rightarrow> (ToLower inp = ''y'', s'))"

text \<open>\<open>runCommand\<close> (lines 712-719). \<open>runCommandResult\<close> is what it returns, given what
  \<open>CombinedOutput\<close> returned.\<close>

definition runCommandResult ::
  "string \<Rightarrow> string list \<Rightarrow> string \<times> error option \<Rightarrow> string \<times> error option" where
  "runCommandResult name args r =
     (case r of
        (output, Some err) \<Rightarrow>
          ([], Some (Sprintf (''command '' @ [CHR 0x27] @ ''%s %s'' @ [CHR 0x27]
                               @ '' failed: %v'' @ [CHR 0x0A] @ ''Output: %s'')
                       [Str name, Str (Join args '' ''), Str err, Str output]))
      | (output, None) \<Rightarrow> (output, None))"

definition runCommand ::
  "world \<Rightarrow> string \<Rightarrow> string list \<Rightarrow> state \<Rightarrow> (string \<times> error option) \<times> state" where
  "runCommand w name args s =
     (if blocked s then (([], None), s)
      else (runCommandResult name args (combinedOutput w name args),
            emit (Exec name args (combinedOutput w name args)) s))"

section \<open>Listing the containers\<close>

text \<open>The loop of \<open>getContainers\<close> (lines 615-627) over the lines of the output.\<close>

fun collectContainers :: "string list \<Rightarrow> Container list \<Rightarrow> Container list" where
  "collectContainers [] containers = containers"
| "collectContainers (line # lines) containers =
     (if \<not> Contains line ''|'' \<or> Contains line ''ID'' \<or> Contains line ''NAME''
      then collectContainers lines containers
      else let parts = Split line ''|'' in
           if 4 \<le> length parts
           then collectContainers lines
                  (containers @ [\<lparr>Name = TrimSpace (parts ! 1),
                                  ID = TrimSpace (parts ! 0),
                                  Image = TrimSpace (parts ! 3)\<rparr>])
           else collectContainers lines containers)"

text \<open>\<open>getContainers\<close> (lines 604-629).\<close>

definition getContainers :: "world \<Rightarrow> error + Container list" where
  "getContainers w =
     (case cmdOutput w ''distrobox-list'' [''--no-color''] of
        (out, Some err) \<Rightarrow>
          if Contains out ''No distroboxes found'' then Inr [] else Inl err
      | (out, None) \<Rightarrow> Inr (collectContainers (Split out [CHR 0x0A]) []))"

section \<open>Helpers of the workflows\<close>

text \<open>The colour codes used inside formatted messages (lines 20-31).\<close>

definition colorReset :: string where
  "colorReset = CHR 0x1B # ''[0m''"

definition colorBold :: string where
  "colorBold = CHR 0x1B # ''[1m''"

text \<open>The seven bytes that open the literals of the success messages in the source
  (lines 204, 315, 428), printed as they stand.\<close>

definition checkMark :: string where
  "checkMark = [CHR 0xE2, CHR 0x80, CHR 0x9A, CHR 0xC3, CHR 0xBA, CHR 0xC3, CHR 0x96]"

text \<open>\<open>getIsolatedHomePath\<close> (lines 581-587).\<close>

definition getIsolatedHomePath :: "world \<Rightarrow> string \<Rightarrow> string \<times> error option" where
  "getIsolatedHomePath w containerName =
     (case userHomeDir w of
        (homeDir, Some err) \<Rightarrow> ([], Some err)
      | (homeDir, None) \<Rightarrow>
          (pathJoin w [homeDir, ''.local'', ''share'', ''distrobox'', ''homes'', containerName],
           None))"

text \<open>\<open>isContainerIsolated\<close> (lines 590-601).\<close>

definition isContainerIsolated :: "world \<Rightarrow> string \<Rightarrow> bool \<times> string" where
  "isContainerIsolated w containerName =
     (case getIsolatedHomePath w containerName of
        (isolatedHomePath, Some err) \<Rightarrow> (False, [])
      | (isolatedHomePath, None) \<Rightarrow>
          if statOk w isolatedHomePath then (True, isolatedHomePath) else (False, []))"

text \<open>\<open>selectItem\<close> (lines 696-709): the loop asks again until the line is blank or a
  number between 1 and \<open>mx\<close>. Each round consumes a line of input, and the end of input
  reads as a blank line, so the loop ends.\<close>

function selectItem :: "nat \<Rightarrow> state \<Rightarrow> nat \<times> state" where
  "selectItem mx s =
     (case readUserInput s of
        (input, s1) \<Rightarrow>
          if input = [] then (0, s1)
          else (case Atoi input of
                  Some choice \<Rightarrow>
                    if 0 < choice \<and> choice \<le> int mx then (nat choice, s1)
                    else selectItem mx
                           (logWarning
                              (Sprintf ''Invalid input. Please enter a number between 1 and %d.''
                                 [Dec (int mx)]) s1)
                | None \<Rightarrow>
                    selectItem mx
                      (logWarning
                         (Sprintf ''Invalid input. Please enter a number between 1 and %d.''
                            [Dec (int mx)]) s1)))"
  by pat_completeness auto
termination
proof (relation "measure (\<lambda>(mx, s). length (stdin s))")
  show "wf (measure (\<lambda>(mx, s). length (stdin s)))" by simp
next
  fix mx :: nat and s s1 :: state and input msg :: string
  assume "(input, s1) = readUserInput s" and "input \<noteq> []"
  then have "length (stdin s1) < length (stdin s)"
    by (auto simp: readUserInput_def split: if_splits list.splits)
  then have "length (stdin (logWarning msg s1)) < length (stdin s)" for msg
    by (simp add: logWarning_def emit_def)
  then show "((mx, logWarning (Sprintf ''Invalid input. Please enter a number between 1 and %d.''
                 [Dec (int mx)]) s1), (mx, s)) \<in> measure (\<lambda>(mx, s). length (stdin s))"
    by simp
  then show "((mx, logWarning (Sprintf ''Invalid input. Please enter a number between 1 and %d.''
                 [Dec (int mx)]) s1), (mx, s)) \<in> measure (\<lambda>(mx, s). length (stdin s))"
    by simp
qed

declare selectItem.simps [simp del]

text \<open>The terminal fallback of \<open>selectDirectory\<close> (lines 647-661).\<close>

definition promptDirectory :: "world \<Rightarrow> state \<Rightarrow> (string \<times> error option) \<times> state" where
  "promptDirectory w s =
     (case readUserInput s of
        (path, s1) \<Rightarrow>
          if path = [] then (([], None), s1)
          else let path' = (if HasPrefix path ''~/''
                            then pathJoin w [fst (userHomeDir w), drop 2 path] else path)
               in if \<not> statOk w path' \<or> \<not> isDir w path'
                  then (([], Some ''invalid or non-existent directory''), s1)
                  else ((path', None), s1))"

text \<open>\<open>selectDirectory\<close> (lines 632-662).\<close>

definition selectDirectory ::
  "world \<Rightarrow> string \<Rightarrow> state \<Rightarrow> (string \<times> error option) \<times> state" where
  "selectDirectory w title s =
     (if guiFilePicker w \<noteq> [] then
        let name = (if guiFilePicker w = ''zenity'' then ''zenity'' else ''kdialog'');
            args = (if guiFilePicker w = ''zenity''
                    then [''--file-selection'', ''--directory'', ''--title='' @ title]
                    else [''--getexistingdirectory'', ''.'', ''--title'', title]);
            s1 = emit (Picker name args) s
        in case cmdOutput w name args of
             (out, None) \<Rightarrow> ((TrimSpace out, None), s1)
           | (out, Some err) \<Rightarrow>
               promptDirectory w
                 (logWarning ''GUI folder picker failed. Falling back to terminal.'' s1)
      else promptDirectory w s)"

text \<open>The terminal fallback of \<open>selectFile\<close> (lines 679-691).\<close>

definition promptFile :: "world \<Rightarrow> state \<Rightarrow> (string \<times> error option) \<times> state" where
  "promptFile w s =
     (case readUserInput s of
        (path, s1) \<Rightarrow>
          if path = [] then (([], None), s1)
          else let path' = (if HasPrefix path ''~/''
                            then pathJoin w [fst (userHomeDir w), drop 2 path] else path)
               in if \<not> statOk w path' then (([], Some ''file not found''), s1)
                  else ((path', None), s1))"

text \<open>\<open>selectFile\<close> (lines 665-692).\<close>

definition selectFile ::
  "world \<Rightarrow> string \<Rightarrow> string \<Rightarrow> state \<Rightarrow> (string \<times> error option) \<times> state" where
  "selectFile w title filter_pat s =
     (if guiFilePicker w \<noteq> [] then
        let name = (if guiFilePicker w = ''zenity'' then ''zenity'' else ''kdialog'');
            args = (if guiFilePicker w = ''zenity''
                    then [''--file-selection'', ''--title='' @ title,
                          ''--file-filter='' @ filter_pat]
                    else [''--getopenfilename'', ''.'', filter_pat, ''--title'', title]);
            s1 = emit (Picker name args) s
        in case cmdOutput w name args of
             (out, None) \<Rightarrow> ((TrimSpace out, None), s1)
           | (out, Some err) \<Rightarrow>
               promptFile w (logWarning ''GUI file picker failed. Falling back to terminal.'' s1)
      else promptFile w s)"

text \<open>\<open>os.RemoveAll\<close>, recorded as an event.\<close>

definition osRemoveAll :: "world \<Rightarrow> string \<Rightarrow> state \<Rightarrow> error option \<times> state" where
  "osRemoveAll w path s =
     (if blocked s then (None, s)
      else (removeAll w path, emit (RemoveAll path (removeAll w path)) s))"

section \<open>Backup\<close>

text \<open>The name of the temporary image of a backup (line 169).\<close>

definition backupTempImageName :: "world \<Rightarrow> Container \<Rightarrow> string" where
  "backupTempImageName w selectedContainer =
     Sprintf ''distrobox-backup-%s:%d'' [Str (ID selectedContainer), Dec (unixNow w)]"

text \<open>Step 5 of \<open>handleBackup\<close>, "Perform Backup" (lines 166-205).\<close>

definition performBackup :: "world \<Rightarrow> Container \<Rightarrow> string \<Rightarrow> state \<Rightarrow> state" where
  "performBackup w selectedContainer backupFile s =
     (let s1 = logInfo (Sprintf ''Backing up '%s' to '%s'...''
                          [Str (Name selectedContainer), Str backupFile]) s;
          tempImageName = backupTempImageName w selectedContainer;
          s2 = spawnSpinner ''Processing...'' s1
      in case runCommand w (containerRuntime w)
                [''commit'', Name selectedContainer, tempImageName] s2 of
           ((out1, Some err), s3) \<Rightarrow>
             (let s4 = sendDone s3;
                  s5 = logError ''Failed to commit container.'' s4
              in logError err s5)
         | ((out1, None), s3) \<Rightarrow>
             (case runCommand w (containerRuntime w)
                     [''save'', ''-o'', backupFile, tempImageName] s3 of
                ((out2, Some err), s4) \<Rightarrow>
                  (let s5 = sendDone s4;
                       s6 = logError ''Failed to save image to tar file.'' s5
                   in snd (runCommand w (containerRuntime w) [''rmi'', tempImageName] s6))
              | ((out2, None), s4) \<Rightarrow>
                  (case runCommand w (containerRuntime w) [''rmi'', tempImageName] s4 of
                     ((out3, err), s5) \<Rightarrow>
                       (let s6 = (case err of
                                    Some e \<Rightarrow>
                                      logWarning
                                        (Sprintf ''Could not clean up temporary image '%s'. You may want to remove it manually.''
                                           [Str tempImageName])
                                        (sendDone s5)
                                  | None \<Rightarrow> s5);
                            s7 = sendDone s6
                        in logSuccess (Sprintf (checkMark @ '' Backup for '%s' completed successfully!'')
                                         [Str (Name selectedContainer)]) s7))))"

text \<open>\<open>handleBackup\<close> (lines 122-206).\<close>

definition handleBackup :: "world \<Rightarrow> Container list \<Rightarrow> state \<Rightarrow> state" where
  "handleBackup w containers s0 =
     (case selectItem (length containers) s0 of
        (containerIndex, s1) \<Rightarrow>
          if containerIndex = 0 then s1
          else
            (let selectedContainer = containers ! (containerIndex - 1);
                 s2 = logInfo ''Please choose a backup destination folder.'' s1
             in case selectDirectory w ''Select Backup Folder'' s2 of
                  ((destDir, err), s3) \<Rightarrow>
                    if err \<noteq> None \<or> destDir = []
                    then logError ''No valid destination directory selected. Aborting.'' s3
                    else
                      (case readUserInput s3 of
                         (backupName, s4) \<Rightarrow>
                           if backupName = []
                           then logWarning ''Backup name cannot be empty. Aborting.'' s4
                           else
                             (let backupFile = pathJoin w [destDir, backupName @ ''.tar'']
                              in case (if statOk w backupFile then confirmAction s4
                                       else (True, s4)) of
                                   (proceed, s5) \<Rightarrow>
                                     if \<not> proceed then logInfo ''Backup cancelled by user.'' s5
                                     else performBackup w selectedContainer backupFile s5))))"

section \<open>Restore\<close>

text \<open>The loop that extracts the name of the loaded image (lines 238-248); the empty
  string stands for "not found".\<close>

fun findLoadedImage :: "string list \<Rightarrow> string" where
  "findLoadedImage [] = []"
| "findLoadedImage (line # lines) =
     (if Contains line ''Loaded image:''
      then (let parts = SplitN line ''Loaded image:'' 2
            in if length parts = 2 then TrimSpace (parts ! 1) else findLoadedImage lines)
      else findLoadedImage lines)"

text \<open>The end of \<open>handleRestore\<close>: creation and clean-up (lines 302-316).\<close>

definition createRestored ::
  "world \<Rightarrow> string \<Rightarrow> string \<Rightarrow> string list \<Rightarrow> state \<Rightarrow> state" where
  "createRestored w containerName loadedImage args s =
     (case runCommand w ''distrobox-create'' args s of
        ((out, err), s1) \<Rightarrow>
          (let s2 = sendDone s1
           in case err of
                Some e \<Rightarrow>
                  (let s3 = logError (Sprintf ''Failed to create container '%s'.''
                                        [Str containerName]) s2;
                       s4 = logError e s3
                   in logInfo
                        (Sprintf ''The loaded image '%s' was kept. You can try creating the container again manually or remove the image.''
                           [Str loadedImage]) s4)
              | None \<Rightarrow>
                  (let s3 = snd (runCommand w (containerRuntime w) [''rmi'', loadedImage] s2)
                   in logSuccess (Sprintf (checkMark @ '' Container '%s' restored successfully!'')
                                    [Str containerName]) s3)))"

text \<open>Steps 3 to 5 of \<open>handleRestore\<close>, once the image is loaded (lines 257-300).\<close>

definition restoreImage :: "world \<Rightarrow> string \<Rightarrow> state \<Rightarrow> state" where
  "restoreImage w loadedImage s =
     (case readUserInput s of
        (containerName, s1) \<Rightarrow>
          if containerName = []
          then (let s2 = logWarning ''Container name cannot be empty. Aborting.'' s1
                in snd (runCommand w (containerRuntime w) [''rmi'', loadedImage] s2))
          else
            (case selectItem 2 s1 of
               (restoreType, s2) \<Rightarrow>
                 if restoreType = 0
                 then snd (runCommand w (containerRuntime w) [''rmi'', loadedImage] s2)
                 else
                   (let args = [''--name'', containerName, ''--image'', loadedImage];
                        s3 = spawnSpinner ''Creating container...'' s2
                    in if restoreType = 2
                       then (case userHomeDir w of
                               (homeDir, Some err) \<Rightarrow>
                                 (let s4 = sendDone s3;
                                      s5 = logError ''Could not determine user home directory. Aborting isolated restore.'' s4
                                  in snd (runCommand w (containerRuntime w)
                                            [''rmi'', loadedImage] s5))
                             | (homeDir, None) \<Rightarrow>
                                 (let isolatedHomePath =
                                        pathJoin w [homeDir, ''.local'', ''share'', ''distrobox'',
                                                    ''homes'', containerName];
                                      s4 = logInfo (Sprintf ''Creating new %sISOLATED%s container '%s'...''
                                                      [Str colorBold, Str colorReset,
                                                       Str containerName]) s3;
                                      s5 = logInfo (Sprintf ''Container home will be at: %s''
                                                      [Str isolatedHomePath]) s4
                                  in createRestored w containerName loadedImage
                                       (args @ [''--home'', isolatedHomePath]) s5))
                       else (let s4 = logInfo (Sprintf ''Creating new %sSTANDARD%s container '%s'...''
                                                 [Str colorBold, Str colorReset,
                                                  Str containerName]) s3
                             in createRestored w containerName loadedImage args s4))))"

text \<open>\<open>handleRestore\<close> (lines 209-317).\<close>

definition handleRestore :: "world \<Rightarrow> state \<Rightarrow> state" where
  "handleRestore w s0 =
     (let s1 = logInfo ''Please choose a backup file (.tar) to restore.'' s0
      in case selectFile w ''Select Backup File'' ''*.tar'' s1 of
           ((backupFile, err), s2) \<Rightarrow>
             if err \<noteq> None \<or> backupFile = []
             then logError ''No backup file selected. Aborting.'' s2
             else
               (let s3 = logInfo (Sprintf ''Loading image from '%s'...'' [Str backupFile]) s2;
                    s4 = spawnSpinner ''Loading...'' s3
                in case runCommand w (containerRuntime w) [''load'', ''-i'', backupFile] s4 of
                     ((output, err), s5) \<Rightarrow>
                       (let s6 = sendDone s5
                        in case err of
                             Some e \<Rightarrow>
                               (let s7 = logError ''Failed to load image from backup file.'' s6
                                in logError e s7)
                           | None \<Rightarrow>
                               (let loadedImage = findLoadedImage (Split output [CHR 0x0A])
                                in if loadedImage = []
                                   then logError ''Could not determine the name of the loaded image. Aborting.'' s6
                                   else
                                     (let s7 = logSuccess (Sprintf ''Image '%s' loaded successfully.''
                                                             [Str loadedImage]) s6
                                      in restoreImage w loadedImage s7)))))"

section \<open>Edit\<close>

text \<open>The name of the temporary image of a conversion (line 381).\<close>

definition convertTempImageName :: "world \<Rightarrow> Container \<Rightarrow> string" where
  "convertTempImageName w selectedContainer =
     Sprintf ''distrobox-convert-%s:%d'' [Str (ID selectedContainer), Dec (unixNow w)]"

text \<open>Step 4 of \<open>handleEdit\<close>, "Perform Conversion", with the clean-up (lines 367-429).\<close>

definition performConversion ::
  "world \<Rightarrow> Container \<Rightarrow> bool \<Rightarrow> string \<Rightarrow> string \<Rightarrow> state \<Rightarrow> state" where
  "performConversion w selectedContainer isIsolated isolatedHomePath targetType s =
     (let s1 = spawnSpinner ''Converting container...'' s
      in case runCommand w (containerRuntime w) [''stop'', Name selectedContainer] s1 of
           ((out1, Some err), s2) \<Rightarrow>
             (let s3 = sendDone s2
              in logError (Sprintf ''Failed to stop container '%s'. Aborting.''
                             [Str (Name selectedContainer)]) s3)
         | ((out1, None), s2) \<Rightarrow>
             (let tempImageName = convertTempImageName w selectedContainer
              in case runCommand w (containerRuntime w)
                        [''commit'', Name selectedContainer, tempImageName] s2 of
                   ((out2, Some err), s3) \<Rightarrow>
                     (let s4 = sendDone s3
                      in logError ''Failed to commit container to a temporary image. Aborting.'' s4)
                 | ((out2, None), s3) \<Rightarrow>
                     (case runCommand w ''distrobox-rm''
                             [Name selectedContainer, ''--force''] s3 of
                        ((out3, Some err), s4) \<Rightarrow>
                          (let s5 = sendDone s4;
                               s6 = logError ''Failed to remove the old container. You may need to clean up manually. Aborting.'' s5
                           in snd (runCommand w (containerRuntime w)
                                     [''rmi'', tempImageName] s6))
                      | ((out3, None), s4) \<Rightarrow>
                          (let args = [''--name'', Name selectedContainer,
                                       ''--image'', tempImageName]
                                      @ (if targetType = ''ISOLATED''
                                         then [''--home'',
                                               fst (getIsolatedHomePath w
                                                      (Name selectedContainer))]
                                         else [])
                           in case runCommand w ''distrobox-create'' args s4 of
                                ((out4, Some err), s5) \<Rightarrow>
                                  (let s6 = sendDone s5;
                                       s7 = logError (Sprintf ''Failed to create the new %s container.''
                                                        [Str targetType]) s6;
                                       s8 = logError ''The temporary image and data have been kept for manual recovery.'' s7
                                   in logInfo (Sprintf ''Temporary image: %s''
                                                 [Str tempImageName]) s8)
                              | ((out4, None), s5) \<Rightarrow>
                                  (let s6 = (if isIsolated
                                             then (case osRemoveAll w isolatedHomePath s5 of
                                                     (Some e, s') \<Rightarrow>
                                                       logWarning ''You may want to remove it manually.''
                                                         (logWarning
                                                            (Sprintf ''Failed to delete the old isolated home directory: %s''
                                                               [Str isolatedHomePath]) s')
                                                   | (None, s') \<Rightarrow> s')
                                             else s5);
                                       s7 = snd (runCommand w (containerRuntime w)
                                                   [''rmi'', tempImageName] s6);
                                       s8 = sendDone s7
                                   in logSuccess
                                        (Sprintf (checkMark @ '' Container '%s' successfully converted to %s!'')
                                           [Str (Name selectedContainer), Str targetType])
                                        s8)))))"

text \<open>\<open>handleEdit\<close> (lines 320-430).\<close>

definition handleEdit :: "world \<Rightarrow> Container list \<Rightarrow> state \<Rightarrow> state" where
  "handleEdit w containers s0 =
     (case selectItem (length containers) s0 of
        (containerIndex, s1) \<Rightarrow>
          if containerIndex = 0 then s1
          else
            (let selectedContainer = containers ! (containerIndex - 1)
             in case isContainerIsolated w (Name selectedContainer) of
                  (isIsolated, isolatedHomePath) \<Rightarrow>
                    (let targetType = (if isIsolated then ''STANDARD'' else ''ISOLATED'');
                         prompt =
                           (if isIsolated
                            then Sprintf ''Container '%s' is currently ISOLATED. Convert to STANDARD?''
                                   [Str (Name selectedContainer)]
                            else Sprintf ''Container '%s' is currently STANDARD. Convert to ISOLATED?''
                                   [Str (Name selectedContainer)]);
                         s2 = logInfo prompt s1
                     in case confirmAction s2 of
                          (ok1, s3) \<Rightarrow>
                            if \<not> ok1 then logInfo ''Edit cancelled.'' s3
                            else if isIsolated
                            then
                              (let s4 = logWarning (Sprintf ''Converting to STANDARD will PERMANENTLY DELETE the isolated home directory:'' []) s3;
                                   s5 = logWarning isolatedHomePath s4;
                                   s6 = logWarning ''All data inside will be lost. The container will use your host's home directory instead.'' s5
                               in case confirmAction s6 of
                                    (ok2, s7) \<Rightarrow>
                                      if \<not> ok2 then logInfo ''Edit cancelled.'' s7
                                      else performConversion w selectedContainer isIsolated
                                             isolatedHomePath targetType s7)
                            else performConversion w selectedContainer isIsolated
                                   isolatedHomePath targetType s3)))"

section \<open>The specification's wording, and concrete worlds\<close>

text \<open>The name of a temporary image as the specification words it: prefix, container
  id and Unix time joined by hyphens.\<close>

definition hyphenJoined :: "string \<Rightarrow> string \<Rightarrow> int \<Rightarrow> string" where
  "hyphenJoined pre ident t = pre @ ''-'' @ ident @ ''-'' @ decInt t"

text \<open>A world for concrete runs: podman as runtime, no graphical picker, the home
  directory \<open>/home/u\<close>, the clock at 1700000000, paths joined with a slash. Its
  parameters are the answer of the external commands and the paths that exist.\<close>

definition exampleWorld ::
  "(string \<Rightarrow> string list \<Rightarrow> string \<times> error option) \<Rightarrow> string list \<Rightarrow> world" where
  "exampleWorld answer existing =
     \<lparr>containerRuntime = ''podman'', guiFilePicker = [],
      combinedOutput = answer, cmdOutput = answer,
      userHomeDir = (''/home/u'', None),
      statOk = (\<lambda>p. p \<in> set existing), isDir = (\<lambda>p. p \<in> set existing),
      removeAll = (\<lambda>p. None), unixNow = 1700000000,
      pathJoin = (\<lambda>ps. Join ps ''/'')\<rparr>"

definition exampleContainer :: Container where
  "exampleContainer = \<lparr>Name = ''dev'', ID = ''1'', Image = ''img:latest''\<rparr>"

text \<open>The listing of the specification's example, and two failing listings.\<close>

definition exampleRows :: "string list" where
  "exampleRows = [''ID|NAME|STATUS|IMAGE'', ''--|--|--|--'', ''1|dev|Up|img:latest'']"

definition listingOk :: "string \<Rightarrow> string list \<Rightarrow> string \<times> error option" where
  "listingOk name args = (Join exampleRows [CHR 0x0A], None)"

definition listingEmpty :: "string \<Rightarrow> string list \<Rightarrow> string \<times> error option" where
  "listingEmpty name args = (''No distroboxes found.'', Some ''exit status 1'')"

definition listingBroken :: "string \<Rightarrow> string list \<Rightarrow> string \<times> error option" where
  "listingBroken name args = ([], Some ''exit status 127'')"

text \<open>Commands that answer as the runs below need them: every command succeeds except
  the removal of an image; every command succeeds except the creation of a container; the
  load prints podman's log with the line naming the image, and either every command
  succeeds, or the creation fails, or the removal of an image fails; the load prints a log
  without that line.\<close>

definition cleanupFails :: "string \<Rightarrow> string list \<Rightarrow> string \<times> error option" where
  "cleanupFails name args =
     (if args \<noteq> [] \<and> hd args = ''rmi'' then (''image is in use'', Some ''exit status 2'')
      else ([], None))"

definition createFails :: "string \<Rightarrow> string list \<Rightarrow> string \<times> error option" where
  "createFails name args =
     (if name = ''distrobox-create'' then (''cannot create'', Some ''exit status 1'')
      else ([], None))"

definition exampleLoadOutput :: string where
  "exampleLoadOutput =
     Join [''Getting image source signatures'', ''Copying blob 5f70bf18a086 done'',
           ''Loaded image: myimg:123'', ''Writing manifest to image destination'', []]
       [CHR 0x0A]"

definition loadOk :: "string \<Rightarrow> string list \<Rightarrow> string \<times> error option" where
  "loadOk name args =
     (if args \<noteq> [] \<and> hd args = ''load'' then (exampleLoadOutput, None) else ([], None))"

definition loadOkCreateFails :: "string \<Rightarrow> string list \<Rightarrow> string \<times> error option" where
  "loadOkCreateFails name args =
     (if args \<noteq> [] \<and> hd args = ''load'' then (exampleLoadOutput, None)
      else if name = ''distrobox-create'' then (''cannot create'', Some ''exit status 1'')
      else ([], None))"

definition loadOkCleanupFails :: "string \<Rightarrow> string list \<Rightarrow> string \<times> error option" where
  "loadOkCleanupFails name args =
     (if args \<noteq> [] \<and> hd args = ''load'' then (exampleLoadOutput, None)
      else if args \<noteq> [] \<and> hd args = ''rmi''
      then (''image is in use'', Some ''exit status 2'')
      else ([], None))"

definition loadSilent :: "string \<Rightarrow> string list \<Rightarrow> string \<times> error option" where
  "loadSilent name args = (''Getting image source signatures'', None)"

text \<open>The events that touch something outside the program: an external command or the
  removal of a directory.\<close>

fun isEffect :: "event \<Rightarrow> bool" where
  "isEffect (Exec name args r) = True"
| "isEffect (Picker name args) = True"
| "isEffect (RemoveAll path r) = True"
| "isEffect e = False"

section \<open>Properties of the string functions\<close>

lemma Index_None_iff: "Index s sep = None \<longleftrightarrow> \<not> sublist sep s"
  by (induction s) (auto simp: sublist_Cons_right)

lemma Contains_sublist: "Contains s sep \<longleftrightarrow> sublist sep s"
  by (simp add: Contains_def Index_None_iff)

lemma Index_Some_split:
  "Index s sep = Some m \<Longrightarrow> s = take m s @ sep @ drop (m + length sep) s"
proof (induction s arbitrary: m)
  case Nil
  then show ?case by (simp split: if_splits)
next
  case (Cons c cs)
  show ?case
  proof (cases "prefix sep (c # cs)")
    case True
    with Cons.prems have "m = 0" by simp
    with True show ?thesis by (auto simp: prefix_def)
  next
    case False
    with Cons.prems obtain k where k: "Index cs sep = Some k" "m = Suc k" by auto
    from Cons.IH [OF k(1)] k(2) show ?thesis by simp
  qed
qed

lemma Index_Some_least:
  "Index s sep = Some m \<Longrightarrow> s = a @ sep @ b \<Longrightarrow> m \<le> length a"
proof (induction s arbitrary: m a)
  case Nil
  then show ?case by (simp split: if_splits)
next
  case (Cons c cs)
  show ?case
  proof (cases "prefix sep (c # cs)")
    case True
    with Cons.prems(1) have "m = 0" by simp
    then show ?thesis by simp
  next
    case False
    with Cons.prems(1) obtain k where k: "Index cs sep = Some k" "m = Suc k" by auto
    from False Cons.prems(2) have "a \<noteq> []" by (auto simp: prefix_def)
    then obtain a' where a': "a = c # a'" using Cons.prems(2) by (cases a) auto
    with Cons.prems(2) have "cs = a' @ sep @ b" by simp
    from Cons.IH [OF k(1) this] k(2) a' show ?thesis by simp
  qed
qed

lemma Index_char_absent: "c \<notin> set l \<Longrightarrow> Index l [c] = None"
  by (induction l) auto

lemma Index_char_first: "c \<notin> set l \<Longrightarrow> Index (l @ c # r) [c] = Some (length l)"
  by (induction l) auto

lemma Split_char_absent: "c \<notin> set l \<Longrightarrow> Split l [c] = [l]"
  by (simp add: Split.simps [of l] Index_char_absent)

lemma Split_char_first: "c \<notin> set l \<Longrightarrow> Split (l @ c # r) [c] = l # Split r [c]"
  by (simp add: Split.simps [of "l @ c # r"] Index_char_first)

lemma Split_Join:
  "rows \<noteq> [] \<Longrightarrow> \<forall>r \<in> set rows. c \<notin> set r \<Longrightarrow> Split (Join rows [c]) [c] = rows"
proof (induction rows "[c]" rule: Join.induct)
  case 1
  then show ?case by simp
next
  case (2 x)
  then show ?case by (simp add: Split_char_absent)
next
  case (3 x y ys)
  then show ?case by (simp add: Split_char_first)
qed

lemma Split_empty: "Split [] [c] = [[]]"
  by (simp add: Split.simps [of "[]"])

text \<open>\<open>TrimSpace\<close> removes white space beyond ASCII too: here a no-break space in
  front and an em space behind.\<close>

lemma TrimSpace_unicode:
  "TrimSpace ([CHR 0xC2, CHR 0xA0] @ '' y'' @ [CHR 0x09, CHR 0xE2, CHR 0x80, CHR 0x83]) = ''y''"
  by code_simp

section \<open>Listing: the parse of the rows\<close>

lemma collectContainers_acc:
  "collectContainers lines acc = acc @ collectContainers lines []"
proof (induction lines arbitrary: acc)
  case Nil
  then show ?case by simp
next
  case (Cons l ls)
  show ?case
    using Cons.IH [of "acc @ [x]" for x] Cons.IH [of "[x]" for x] Cons.IH [of acc]
    by (simp add: Let_def)
qed

lemma collectContainers_rows:
  "collectContainers rows [] = concat (map (\<lambda>r. collectContainers [r] []) rows)"
proof (induction rows)
  case Nil
  then show ?case by simp
next
  case (Cons r rows)
  show ?case
    using collectContainers_acc [of rows "[x]" for x] Cons.IH
    by (simp add: Let_def)
qed

lemma collectContainers_short: "length (Split r ''|'') < 4 \<Longrightarrow> collectContainers [r] [] = []"
  by (simp add: Let_def)

lemma exampleRows_parsed:
  "collectContainers exampleRows [] =
     [\<lparr>Name = ''--'', ID = ''--'', Image = ''--''\<rparr>,
      \<lparr>Name = ''dev'', ID = ''1'', Image = ''img:latest''\<rparr>]"
  by code_simp

text \<open>
  Claim C1, as the code has it. When the listing command succeeds and prints the rows
  \<open>rows\<close> (joined by newlines), \<open>getContainers\<close> returns no error and the containers
  contributed by each row in turn; a row with fewer than four fields between pipes
  contributes nothing. On the three rows of the specification's example it returns two
  containers, not one: the row \<open>--|--|--|--\<close> holds a pipe, neither \<open>ID\<close> nor \<open>NAME\<close>,
  and four fields, so it is parsed as a container whose id, name and image are \<open>--\<close>,
  followed by the container \<open>dev\<close>.
\<close>

theorem getContainers_rows:
  assumes out: "cmdOutput w ''distrobox-list'' [''--no-color''] = (Join rows [CHR 0x0A], None)"
    and nl: "\<forall>r \<in> set rows. CHR 0x0A \<notin> set r"
  shows "getContainers w = Inr (concat (map (\<lambda>r. collectContainers [r] []) rows))
       \<and> (\<forall>r. length (Split r ''|'') < 4 \<longrightarrow> collectContainers [r] [] = [])
       \<and> (rows = exampleRows \<longrightarrow>
            getContainers w = Inr [\<lparr>Name = ''--'', ID = ''--'', Image = ''--''\<rparr>,
                                   \<lparr>Name = ''dev'', ID = ''1'', Image = ''img:latest''\<rparr>])"
proof -
  have parsed: "getContainers w = Inr (collectContainers rows [])"
  proof (cases "rows = []")
    case True
    with out show ?thesis by (simp add: getContainers_def Split_empty Contains_def)
  next
    case False
    from False nl have "Split (Join rows [CHR 0x0A]) [CHR 0x0A] = rows" by (rule Split_Join)
    with out show ?thesis by (simp add: getContainers_def)
  qed
  show ?thesis
    using parsed collectContainers_rows [of rows] exampleRows_parsed collectContainers_short
    by auto
qed

theorem getContainers_rows_witness:
  "getContainers (exampleWorld listingOk [])
     = Inr [\<lparr>Name = ''--'', ID = ''--'', Image = ''--''\<rparr>,
            \<lparr>Name = ''dev'', ID = ''1'', Image = ''img:latest''\<rparr>]
   \<and> collectContainers [''1|dev''] [] = []"
proof -
  have a: "cmdOutput (exampleWorld listingOk []) ''distrobox-list'' [''--no-color'']
             = (Join exampleRows [CHR 0x0A], None)"
    by (simp add: exampleWorld_def listingOk_def)
  have b: "\<forall>r \<in> set exampleRows. CHR 0x0A \<notin> set r"
    by (simp add: exampleRows_def)
  have c: "length (Split ''1|dev'' ''|'') < 4" by code_simp
  from getContainers_rows [OF a b] c show ?thesis by blast
qed

text \<open>The claim as stated fails on its own example: the result is not the single
  container \<open>dev\<close>.\<close>

theorem getContainers_single_counterexample:
  "getContainers (exampleWorld listingOk [])
     \<noteq> Inr [\<lparr>Name = ''dev'', ID = ''1'', Image = ''img:latest''\<rparr>]"
  by code_simp

section \<open>Listing: the failing command\<close>

text \<open>
  Claim C7. When the listing command fails, \<open>getContainers\<close> looks for the phrase
  \<open>No distroboxes found\<close> in the captured standard output: if it occurs there, the result
  is the empty list and no error; otherwise the result is the error of the command and no
  list.
\<close>

theorem getContainers_failure:
  assumes "cmdOutput w ''distrobox-list'' [''--no-color''] = (out, Some err)"
  shows "(sublist ''No distroboxes found'' out \<longrightarrow> getContainers w = Inr [])
       \<and> (\<not> sublist ''No distroboxes found'' out \<longrightarrow> getContainers w = Inl err)"
  using assms by (simp add: getContainers_def Contains_sublist)

theorem getContainers_failure_witness:
  "getContainers (exampleWorld listingEmpty []) = Inr []
   \<and> getContainers (exampleWorld listingBroken []) = Inl ''exit status 127''"
proof -
  have a: "cmdOutput (exampleWorld listingEmpty []) ''distrobox-list'' [''--no-color'']
             = (''No distroboxes found.'', Some ''exit status 1'')"
    by (simp add: exampleWorld_def listingEmpty_def)
  have b: "cmdOutput (exampleWorld listingBroken []) ''distrobox-list'' [''--no-color'']
             = ([], Some ''exit status 127'')"
    by (simp add: exampleWorld_def listingBroken_def)
  have c: "sublist ''No distroboxes found'' ''No distroboxes found.''"
    unfolding sublist_def by (intro exI [of _ "[]"] exI [of _ "''.''"]) simp
  have d: "\<not> sublist ''No distroboxes found'' []" by simp
  from getContainers_failure [OF a] getContainers_failure [OF b] c d show ?thesis by blast
qed

section \<open>The command runner\<close>

lemmas prim_defs = emit_def logError_def logWarning_def logInfo_def logSuccess_def
  spawnSpinner_def sendDone_def runCommand_def osRemoveAll_def runCommandResult_def

text \<open>
  Claim C9. When the command executed by \<open>runCommand\<close> fails, the output string returned
  is empty, and the captured output is found only inside the message of the returned
  error, after the name of the executable, its arguments joined by spaces and the error of
  the process.
\<close>

theorem runCommand_failure:
  assumes "combinedOutput w name args = (output, Some err)" and "\<not> blocked s"
  shows "fst (fst (runCommand w name args s)) = []
       \<and> snd (fst (runCommand w name args s))
           = Some (''command '' @ [CHR 0x27] @ name @ '' '' @ Join args '' '' @ [CHR 0x27]
                   @ '' failed: '' @ err @ [CHR 0x0A] @ ''Output: '' @ output)"
  using assms by (simp add: runCommand_def runCommandResult_def)

theorem runCommand_failure_witness:
  "fst (fst (runCommand (exampleWorld cleanupFails []) ''podman'' [''rmi'', ''img''] (initial [])))
     = []
   \<and> snd (fst (runCommand (exampleWorld cleanupFails []) ''podman'' [''rmi'', ''img'']
                  (initial [])))
     = Some (''command 'podman rmi img' failed: exit status 2'' @ [CHR 0x0A]
             @ ''Output: image is in use'')"
proof -
  have a: "combinedOutput (exampleWorld cleanupFails []) ''podman'' [''rmi'', ''img'']
             = (''image is in use'', Some ''exit status 2'')"
    by (simp add: exampleWorld_def cleanupFails_def)
  have b: "\<not> blocked (initial [])" by (simp add: initial_def)
  from runCommand_failure [OF a b] show ?thesis by simp
qed

section \<open>The names of the temporary images\<close>

lemma performBackup_commit:
  assumes nb: "\<not> blocked s"
  shows "Exec (containerRuntime w) [''commit'', Name c, backupTempImageName w c]
           (combinedOutput w (containerRuntime w) [''commit'', Name c, backupTempImageName w c])
         \<in> set (trace (performBackup w c f s))"
proof -
  obtain o1 e1 where r1: "combinedOutput w (containerRuntime w)
      [''commit'', Name c, backupTempImageName w c] = (o1, e1)"
    by (cases "combinedOutput w (containerRuntime w)
                 [''commit'', Name c, backupTempImageName w c]")
  obtain o2 e2 where r2: "combinedOutput w (containerRuntime w)
      [''save'', ''-o'', f, backupTempImageName w c] = (o2, e2)"
    by (cases "combinedOutput w (containerRuntime w)
                 [''save'', ''-o'', f, backupTempImageName w c]")
  obtain o3 e3 where r3: "combinedOutput w (containerRuntime w)
      [''rmi'', backupTempImageName w c] = (o3, e3)"
    by (cases "combinedOutput w (containerRuntime w) [''rmi'', backupTempImageName w c]")
  show ?thesis
  proof (cases e1)
    case Some
    with nb r1 show ?thesis by (simp add: performBackup_def prim_defs Let_def)
  next
    case None
    note c1 = this
    show ?thesis
    proof (cases e2)
      case Some
      with nb r1 c1 r2 show ?thesis by (simp add: performBackup_def prim_defs Let_def)
    next
      case None
      with nb r1 c1 r2 r3 show ?thesis
        by (cases e3) (simp_all add: performBackup_def prim_defs Let_def)
    qed
  qed
qed

lemma performConversion_commit:
  assumes nb: "\<not> blocked s"
    and stop: "snd (combinedOutput w (containerRuntime w) [''stop'', Name c]) = None"
  shows "Exec (containerRuntime w) [''commit'', Name c, convertTempImageName w c]
           (combinedOutput w (containerRuntime w)
              [''commit'', Name c, convertTempImageName w c])
         \<in> set (trace (performConversion w c isIso hm target s))"
proof -
  obtain o0 where r0: "combinedOutput w (containerRuntime w) [''stop'', Name c] = (o0, None)"
    using stop by (cases "combinedOutput w (containerRuntime w) [''stop'', Name c]") auto
  obtain o1 e1 where r1: "combinedOutput w (containerRuntime w)
      [''commit'', Name c, convertTempImageName w c] = (o1, e1)"
    by (cases "combinedOutput w (containerRuntime w)
                 [''commit'', Name c, convertTempImageName w c]")
  obtain o2 e2 where r2: "combinedOutput w ''distrobox-rm'' [Name c, ''--force''] = (o2, e2)"
    by (cases "combinedOutput w ''distrobox-rm'' [Name c, ''--force'']")
  obtain o3 e3 where r3: "combinedOutput w ''distrobox-create''
      ([''--name'', Name c, ''--image'', convertTempImageName w c]
         @ (if target = ''ISOLATED''
            then [''--home'', fst (getIsolatedHomePath w (Name c))] else [])) = (o3, e3)"
    by (cases "combinedOutput w ''distrobox-create''
      ([''--name'', Name c, ''--image'', convertTempImageName w c]
         @ (if target = ''ISOLATED''
            then [''--home'', fst (getIsolatedHomePath w (Name c))] else []))")
  obtain o4 e4 where r4: "combinedOutput w (containerRuntime w)
      [''rmi'', convertTempImageName w c] = (o4, e4)"
    by (cases "combinedOutput w (containerRuntime w) [''rmi'', convertTempImageName w c]")
  show ?thesis
  proof (cases e1)
    case Some
    with nb r0 r1 show ?thesis by (simp add: performConversion_def prim_defs Let_def)
  next
    case None
    note c1 = this
    show ?thesis
    proof (cases e2)
      case Some
      with nb r0 r1 c1 r2 r4 show ?thesis
        by (simp add: performConversion_def prim_defs Let_def)
    next
      case None
      note c2 = this
      show ?thesis
      proof (cases e3)
        case Some
        with nb r0 r1 c1 r2 c2 r3 show ?thesis
          by (simp add: performConversion_def prim_defs Let_def)
      next
        case None
        with nb r0 r1 c1 r2 c2 r3 r4 show ?thesis
          by (cases isIso; cases "removeAll w hm")
             (simp_all add: performConversion_def prim_defs Let_def)
      qed
    qed
  qed
qed

text \<open>
  Claim C3, as the code has it. The temporary image of a backup is named
  \<open>distrobox-backup-<id>:<time>\<close> and that of a conversion \<open>distrobox-convert-<id>:<time>\<close>:
  the prefix and the container id are joined by a hyphen, the id and the Unix time by a
  colon (the time is the tag of the image). These are the names handed to the commit
  command: Backup always runs it, Edit runs it once the container is stopped.
\<close>

theorem tempImageName_format:
  "backupTempImageName w c = ''distrobox-backup'' @ ''-'' @ ID c @ '':'' @ decInt (unixNow w)
   \<and> convertTempImageName w c
       = ''distrobox-convert'' @ ''-'' @ ID c @ '':'' @ decInt (unixNow w)
   \<and> (\<not> blocked s \<longrightarrow>
        Exec (containerRuntime w) [''commit'', Name c, backupTempImageName w c]
          (combinedOutput w (containerRuntime w)
             [''commit'', Name c, backupTempImageName w c])
        \<in> set (trace (performBackup w c f s)))
   \<and> (\<not> blocked s \<and> snd (combinedOutput w (containerRuntime w) [''stop'', Name c]) = None \<longrightarrow>
        Exec (containerRuntime w) [''commit'', Name c, convertTempImageName w c]
          (combinedOutput w (containerRuntime w)
             [''commit'', Name c, convertTempImageName w c])
        \<in> set (trace (performConversion w c isIso hm target s)))"
  using performBackup_commit [of s w c f] performConversion_commit [of s w c isIso hm target]
  by (simp add: backupTempImageName_def convertTempImageName_def)

theorem tempImageName_format_witness:
  "backupTempImageName (exampleWorld createFails []) exampleContainer
     = ''distrobox-backup-1:1700000000''
   \<and> convertTempImageName (exampleWorld createFails []) exampleContainer
     = ''distrobox-convert-1:1700000000''
   \<and> Exec ''podman'' [''commit'', ''dev'', ''distrobox-backup-1:1700000000''] ([], None)
       \<in> set (trace (performBackup (exampleWorld createFails []) exampleContainer
                        ''/tmp/b/dev1.tar'' (initial [])))
   \<and> Exec ''podman'' [''commit'', ''dev'', ''distrobox-convert-1:1700000000''] ([], None)
       \<in> set (trace (performConversion (exampleWorld createFails []) exampleContainer
                        False [] ''ISOLATED'' (initial [])))"
proof -
  have d: "decInt 1700000000 = ''1700000000''" by code_simp
  have a: "\<not> blocked (initial [])" by (simp add: initial_def)
  have b: "snd (combinedOutput (exampleWorld createFails [])
                  (containerRuntime (exampleWorld createFails []))
                  [''stop'', Name exampleContainer]) = None"
    by (simp add: exampleWorld_def createFails_def)
  note t = tempImageName_format [of "exampleWorld createFails []" exampleContainer
               "initial []" "''/tmp/b/dev1.tar''" False "[]" "''ISOLATED''"]
  from t d have n1: "backupTempImageName (exampleWorld createFails []) exampleContainer
                       = ''distrobox-backup-1:1700000000''"
    by (simp add: exampleWorld_def exampleContainer_def)
  from t d have n2: "convertTempImageName (exampleWorld createFails []) exampleContainer
                       = ''distrobox-convert-1:1700000000''"
    by (simp add: exampleWorld_def exampleContainer_def)
  from t a b have
    "Exec (containerRuntime (exampleWorld createFails []))
       [''commit'', Name exampleContainer,
        backupTempImageName (exampleWorld createFails []) exampleContainer]
       (combinedOutput (exampleWorld createFails [])
          (containerRuntime (exampleWorld createFails []))
          [''commit'', Name exampleContainer,
           backupTempImageName (exampleWorld createFails []) exampleContainer])
     \<in> set (trace (performBackup (exampleWorld createFails []) exampleContainer
                      ''/tmp/b/dev1.tar'' (initial [])))"
    by blast
  then have m1: "Exec ''podman'' [''commit'', ''dev'', ''distrobox-backup-1:1700000000'']
                   ([], None)
                 \<in> set (trace (performBackup (exampleWorld createFails []) exampleContainer
                                  ''/tmp/b/dev1.tar'' (initial [])))"
    unfolding n1 by (simp add: exampleWorld_def exampleContainer_def createFails_def)
  from t a b have
    "Exec (containerRuntime (exampleWorld createFails []))
       [''commit'', Name exampleContainer,
        convertTempImageName (exampleWorld createFails []) exampleContainer]
       (combinedOutput (exampleWorld createFails [])
          (containerRuntime (exampleWorld createFails []))
          [''commit'', Name exampleContainer,
           convertTempImageName (exampleWorld createFails []) exampleContainer])
     \<in> set (trace (performConversion (exampleWorld createFails []) exampleContainer
                      False [] ''ISOLATED'' (initial [])))"
    by blast
  then have m2: "Exec ''podman'' [''commit'', ''dev'', ''distrobox-convert-1:1700000000'']
                   ([], None)
                 \<in> set (trace (performConversion (exampleWorld createFails [])
                                  exampleContainer False [] ''ISOLATED'' (initial [])))"
    unfolding n2 by (simp add: exampleWorld_def exampleContainer_def createFails_def)
  from n1 n2 m1 m2 show ?thesis by blast
qed

text \<open>The claim as stated fails: the name is not the hyphen-joined string.\<close>

theorem tempImageName_hyphen_counterexample:
  "backupTempImageName (exampleWorld createFails []) exampleContainer
     \<noteq> hyphenJoined ''distrobox-backup'' (ID exampleContainer)
          (unixNow (exampleWorld createFails []))
   \<and> convertTempImageName (exampleWorld createFails []) exampleContainer
     \<noteq> hyphenJoined ''distrobox-convert'' (ID exampleContainer)
          (unixNow (exampleWorld createFails []))"
  by code_simp

section \<open>Backup: the completion signal\<close>

text \<open>On three of the four paths of the backup proper the signal is sent once, the
  indicator ends and the workflow returns: when the commit fails, when the save fails, and
  when all three commands succeed.\<close>

lemma performBackup_signals_once:
  assumes "\<not> blocked s" and "\<not> listening s"
    and "combinedOutput w (containerRuntime w)
           [''commit'', Name c, backupTempImageName w c] = (out1, e1)"
    and "combinedOutput w (containerRuntime w)
           [''save'', ''-o'', f, backupTempImageName w c] = (out2, e2)"
    and "combinedOutput w (containerRuntime w) [''rmi'', backupTempImageName w c] = (out3, e3)"
    and "e1 \<noteq> None \<or> e2 \<noteq> None \<or> e3 = None"
  shows "length (filter (\<lambda>e. e = Signal) (trace (performBackup w c f s)))
           = length (filter (\<lambda>e. e = Signal) (trace s)) + 1
       \<and> \<not> blocked (performBackup w c f s) \<and> \<not> listening (performBackup w c f s)"
proof (cases e1)
  case Some
  with assms(1-3) show ?thesis by (simp add: performBackup_def prim_defs Let_def)
next
  case None
  note c1 = this
  show ?thesis
  proof (cases e2)
    case Some
    with assms(1-5) c1 show ?thesis
      by (cases e3) (simp_all add: performBackup_def prim_defs Let_def)
  next
    case None
    with assms c1 show ?thesis by (simp add: performBackup_def prim_defs Let_def)
  qed
qed

text \<open>
  Claim C2 fails on the fourth path. When commit and save succeed and the removal of the
  temporary image fails, \<open>done <- true\<close> is executed inside the error branch (line 198)
  and again after it (line 203). The first send ends the indicator; the second send finds
  no receiver, so the main goroutine blocks for ever: the success message of line 204 is
  never logged and \<open>handleBackup\<close> does not return, although the comment of line 199
  says that the failed clean-up is not a fatal error for the backup.
\<close>

theorem performBackup_cleanup_failure:
  assumes "\<not> blocked s" and "\<not> listening s"
    and "combinedOutput w (containerRuntime w)
           [''commit'', Name c, backupTempImageName w c] = (out1, None)"
    and "combinedOutput w (containerRuntime w)
           [''save'', ''-o'', f, backupTempImageName w c] = (out2, None)"
    and "combinedOutput w (containerRuntime w) [''rmi'', backupTempImageName w c]
           = (out3, Some e)"
  shows "blocked (performBackup w c f s)
       \<and> trace (performBackup w c f s)
           = trace s @
             [LogInfo (''Backing up '' @ [CHR 0x27] @ Name c @ [CHR 0x27] @ '' to ''
                       @ [CHR 0x27] @ f @ [CHR 0x27] @ ''...''),
              Spawn ''Processing...'',
              Exec (containerRuntime w) [''commit'', Name c, backupTempImageName w c]
                (out1, None),
              Exec (containerRuntime w) [''save'', ''-o'', f, backupTempImageName w c]
                (out2, None),
              Exec (containerRuntime w) [''rmi'', backupTempImageName w c] (out3, Some e),
              Signal,
              LogWarning (''Could not clean up temporary image '' @ [CHR 0x27]
                          @ backupTempImageName w c @ [CHR 0x27]
                          @ ''. You may want to remove it manually.''),
              Signal]"
  using assms
  by (simp add: performBackup_def prim_defs Let_def)

theorem performBackup_cleanup_failure_witness:
  "blocked (performBackup (exampleWorld cleanupFails []) exampleContainer
              ''/tmp/b/dev1.tar'' (initial []))
   \<and> filter (\<lambda>e. e = Signal)
        (trace (performBackup (exampleWorld cleanupFails []) exampleContainer
                  ''/tmp/b/dev1.tar'' (initial [])))
     = [Signal, Signal]"
proof -
  have a: "\<not> blocked (initial [])" "\<not> listening (initial [])"
    by (simp_all add: initial_def)
  have b: "combinedOutput (exampleWorld cleanupFails [])
             (containerRuntime (exampleWorld cleanupFails []))
             [''commit'', Name exampleContainer,
              backupTempImageName (exampleWorld cleanupFails []) exampleContainer]
           = ([], None)"
    by (simp add: exampleWorld_def cleanupFails_def)
  have c: "combinedOutput (exampleWorld cleanupFails [])
             (containerRuntime (exampleWorld cleanupFails []))
             [''save'', ''-o'', ''/tmp/b/dev1.tar'',
              backupTempImageName (exampleWorld cleanupFails []) exampleContainer]
           = ([], None)"
    by (simp add: exampleWorld_def cleanupFails_def)
  have d: "combinedOutput (exampleWorld cleanupFails [])
             (containerRuntime (exampleWorld cleanupFails []))
             [''rmi'', backupTempImageName (exampleWorld cleanupFails []) exampleContainer]
           = (''image is in use'', Some ''exit status 2'')"
    by (simp add: exampleWorld_def cleanupFails_def)
  from performBackup_cleanup_failure [OF a b c d] show ?thesis
    by (simp add: initial_def)
qed

text \<open>The same run from the menu: the user picks container 1, the folder \<open>/tmp/b\<close> and
  the name \<open>dev1\<close>.\<close>

lemma handleBackup_cleanup_failure_run:
  "blocked (handleBackup (exampleWorld cleanupFails [''/tmp/b'']) [exampleContainer]
              (initial [''1'', ''/tmp/b'', ''dev1'']))
   \<and> filter (\<lambda>e. e \<noteq> LogInfo ''Please choose a backup destination folder.'')
        (trace (handleBackup (exampleWorld cleanupFails [''/tmp/b'']) [exampleContainer]
                  (initial [''1'', ''/tmp/b'', ''dev1''])))
     = [LogInfo ''Backing up 'dev' to '/tmp/b/dev1.tar'...'',
        Spawn ''Processing...'',
        Exec ''podman'' [''commit'', ''dev'', ''distrobox-backup-1:1700000000''] ([], None),
        Exec ''podman'' [''save'', ''-o'', ''/tmp/b/dev1.tar'', ''distrobox-backup-1:1700000000'']
          ([], None),
        Exec ''podman'' [''rmi'', ''distrobox-backup-1:1700000000'']
          (''image is in use'', Some ''exit status 2''),
        Signal,
        LogWarning ''Could not clean up temporary image 'distrobox-backup-1:1700000000'. You may want to remove it manually.'',
        Signal]"
  by code_simp

section \<open>Edit: failure of the replacement\<close>

text \<open>
  The conversion proper, entered with no indicator running: when the container was
  stopped, committed and removed, and the creation of the replacement fails, it ends
  after these events. No image is removed and no directory is deleted, whether or not the
  source was isolated.
\<close>

lemma performConversion_create_failure:
  assumes "\<not> blocked s" and "\<not> listening s"
    and "combinedOutput w (containerRuntime w) [''stop'', Name c] = (out1, None)"
    and "combinedOutput w (containerRuntime w)
           [''commit'', Name c, convertTempImageName w c] = (out2, None)"
    and "combinedOutput w ''distrobox-rm'' [Name c, ''--force''] = (out3, None)"
    and "args = [''--name'', Name c, ''--image'', convertTempImageName w c]
                @ (if target = ''ISOLATED''
                   then [''--home'', fst (getIsolatedHomePath w (Name c))] else [])"
    and "combinedOutput w ''distrobox-create'' args = (out4, Some e)"
  shows "trace (performConversion w c isIso hm target s)
           = trace s @
             [Spawn ''Converting container...'',
              Exec (containerRuntime w) [''stop'', Name c] (out1, None),
              Exec (containerRuntime w) [''commit'', Name c, convertTempImageName w c]
                (out2, None),
              Exec ''distrobox-rm'' [Name c, ''--force''] (out3, None),
              Exec ''distrobox-create'' args (out4, Some e),
              Signal,
              LogError (''Failed to create the new '' @ target @ '' container.''),
              LogError ''The temporary image and data have been kept for manual recovery.'',
              LogInfo (''Temporary image: '' @ convertTempImageName w c)]
       \<and> (\<forall>p r. RemoveAll p r \<notin> set (drop (length (trace s))
                                         (trace (performConversion w c isIso hm target s))))
       \<and> (\<forall>n r. Exec n [''rmi'', convertTempImageName w c] r
                 \<notin> set (drop (length (trace s))
                           (trace (performConversion w c isIso hm target s))))
       \<and> \<not> blocked (performConversion w c isIso hm target s)
       \<and> \<not> listening (performConversion w c isIso hm target s)"
proof -
  have "convertTempImageName w c \<noteq> ''--force''"
    by (simp add: convertTempImageName_def)
  with assms show ?thesis
    by (simp add: performConversion_def prim_defs Let_def)
qed

section \<open>Selection and confirmation\<close>

lemma readUserInput_state:
  "blocked (snd (readUserInput s)) = blocked s"
  "listening (snd (readUserInput s)) = listening s"
  "trace (snd (readUserInput s)) = trace s"
  by (simp_all add: readUserInput_def split: list.splits)

text \<open>\<open>selectItem\<close> only reads input and logs warnings, and its answer is 0 or an
  index of the list.\<close>

lemma selectItem_state:
  "blocked (snd (selectItem mx s)) = blocked s
   \<and> listening (snd (selectItem mx s)) = listening s
   \<and> filter isEffect (trace (snd (selectItem mx s))) = filter isEffect (trace s)
   \<and> fst (selectItem mx s) \<le> mx"
proof (induction mx s rule: selectItem.induct)
  case (1 mx s)
  obtain input s1 where r: "readUserInput s = (input, s1)"
    by (cases "readUserInput s")
  from readUserInput_state [of s] r
  have s1: "blocked s1 = blocked s" "listening s1 = listening s" "trace s1 = trace s"
    by simp_all
  define s2 where "s2 = logWarning
      (Sprintf ''Invalid input. Please enter a number between 1 and %d.'' [Dec (int mx)]) s1"
  have s2: "blocked s2 = blocked s" "listening s2 = listening s"
    "filter isEffect (trace s2) = filter isEffect (trace s)"
    using s1 by (simp_all add: s2_def logWarning_def emit_def del: Sprintf.simps)
  have ih: "blocked (snd (selectItem mx s2)) = blocked s2
            \<and> listening (snd (selectItem mx s2)) = listening s2
            \<and> filter isEffect (trace (snd (selectItem mx s2))) = filter isEffect (trace s2)
            \<and> fst (selectItem mx s2) \<le> mx"
    if "input \<noteq> []" and "\<forall>choice. Atoi input = Some choice \<longrightarrow> \<not> (0 < choice \<and> choice \<le> int mx)"
    using that "1.IH" r [symmetric] unfolding s2_def
    by (cases "Atoi input") (auto simp del: Sprintf.simps)
  show ?case
  proof (cases "input = []")
    case True
    with r s1 show ?thesis by (simp add: selectItem.simps [of mx s])
  next
    case False
    show ?thesis
    proof (cases "Atoi input")
      case None
      with ih False have "blocked (snd (selectItem mx s2)) = blocked s2
            \<and> listening (snd (selectItem mx s2)) = listening s2
            \<and> filter isEffect (trace (snd (selectItem mx s2))) = filter isEffect (trace s2)
            \<and> fst (selectItem mx s2) \<le> mx" by simp
      with None False r s2 show ?thesis
        by (simp add: selectItem.simps [of mx s] s2_def [symmetric] del: Sprintf.simps)
    next
      case (Some choice)
      show ?thesis
      proof (cases "0 < choice \<and> choice \<le> int mx")
        case True
        then have "nat choice \<le> mx" by linarith
        with True Some False r s1 show ?thesis by (simp add: selectItem.simps [of mx s])
      next
        case False
        with ih Some \<open>input \<noteq> []\<close> have "blocked (snd (selectItem mx s2)) = blocked s2
            \<and> listening (snd (selectItem mx s2)) = listening s2
            \<and> filter isEffect (trace (snd (selectItem mx s2))) = filter isEffect (trace s2)
            \<and> fst (selectItem mx s2) \<le> mx" by simp
        with Some False \<open>input \<noteq> []\<close> r s2 show ?thesis
          by (auto simp add: selectItem.simps [of mx s] s2_def [symmetric]
                   simp del: Sprintf.simps)
      qed
    qed
  qed
qed

section \<open>Restore: creation and clean-up\<close>

text \<open>
  The last step of Restore, entered with the indicator running: when the creation command
  fails, the events are the failed command, the completion signal, two error lines and an
  information line that names the image; the image is not removed. When the creation
  succeeds, the image is removed next and the success line follows, whatever the removal
  returns.
\<close>

lemma createRestored_outcomes:
  assumes "\<not> blocked s" and "listening s"
  shows "(combinedOutput w ''distrobox-create'' args = (out, Some e) \<longrightarrow>
            trace (createRestored w containerName loadedImage args s)
              = trace s @
                [Exec ''distrobox-create'' args (out, Some e),
                 Signal,
                 LogError (''Failed to create container '' @ [CHR 0x27] @ containerName
                           @ [CHR 0x27] @ ''.''),
                 LogError (''command '' @ [CHR 0x27] @ ''distrobox-create '' @ Join args '' ''
                           @ [CHR 0x27] @ '' failed: '' @ e @ [CHR 0x0A] @ ''Output: '' @ out),
                 LogInfo (''The loaded image '' @ [CHR 0x27] @ loadedImage @ [CHR 0x27]
                          @ '' was kept. You can try creating the container again manually or remove the image.'')])
       \<and> (combinedOutput w ''distrobox-create'' args = (out, None) \<longrightarrow>
            trace (createRestored w containerName loadedImage args s)
              = trace s @
                [Exec ''distrobox-create'' args (out, None),
                 Signal,
                 Exec (containerRuntime w) [''rmi'', loadedImage]
                   (combinedOutput w (containerRuntime w) [''rmi'', loadedImage]),
                 LogSuccess (checkMark @ '' Container '' @ [CHR 0x27] @ containerName
                             @ [CHR 0x27] @ '' restored successfully!'')])"
proof -
  obtain o2 e2 where r: "combinedOutput w (containerRuntime w) [''rmi'', loadedImage] = (o2, e2)"
    by (cases "combinedOutput w (containerRuntime w) [''rmi'', loadedImage]")
  with assms show ?thesis
    by (cases e2) (simp_all add: createRestored_def prim_defs Let_def checkMark_def)
qed

section \<open>Restore: the aborts that remove the loaded image\<close>

text \<open>
  The steps of Restore after the load, entered with no indicator running: the image is
  removed again before returning when the name entered for the new container is empty,
  when the choice of the kind of container is left blank, and when an isolated container
  is chosen and the home directory of the user cannot be determined.
\<close>

lemma restoreImage_aborts_remove_image:
  assumes "\<not> blocked s" and "\<not> listening s"
  shows "(fst (readUserInput s) = [] \<longrightarrow>
            trace (restoreImage w loadedImage s)
              = trace s @
                [LogWarning ''Container name cannot be empty. Aborting.'',
                 Exec (containerRuntime w) [''rmi'', loadedImage]
                   (combinedOutput w (containerRuntime w) [''rmi'', loadedImage])])
       \<and> (fst (readUserInput s) \<noteq> [] \<and> selectItem 2 (snd (readUserInput s)) = (0, s2) \<longrightarrow>
            trace (restoreImage w loadedImage s)
              = trace s2 @
                [Exec (containerRuntime w) [''rmi'', loadedImage]
                   (combinedOutput w (containerRuntime w) [''rmi'', loadedImage])]
            \<and> filter isEffect (trace s2) = filter isEffect (trace s))
       \<and> (fst (readUserInput s) \<noteq> [] \<and> selectItem 2 (snd (readUserInput s)) = (2, s2)
            \<and> userHomeDir w = (homeDir, Some e) \<longrightarrow>
            trace (restoreImage w loadedImage s)
              = trace s2 @
                [Spawn ''Creating container...'',
                 Signal,
                 LogError ''Could not determine user home directory. Aborting isolated restore.'',
                 Exec (containerRuntime w) [''rmi'', loadedImage]
                   (combinedOutput w (containerRuntime w) [''rmi'', loadedImage])]
            \<and> filter isEffect (trace s2) = filter isEffect (trace s))"
proof -
  obtain containerName s1 where r: "readUserInput s = (containerName, s1)"
    by (cases "readUserInput s")
  from readUserInput_state [of s] r assms
  have s1: "\<not> blocked s1" "\<not> listening s1" "trace s1 = trace s"
    by simp_all
  have s2: "\<not> blocked s2 \<and> \<not> listening s2
            \<and> filter isEffect (trace s2) = filter isEffect (trace s)"
    if "selectItem 2 s1 = (k, s2)" for k
    using selectItem_state [of 2 s1] that s1 by simp
  obtain o3 e3 where rm: "combinedOutput w (containerRuntime w) [''rmi'', loadedImage] = (o3, e3)"
    by (cases "combinedOutput w (containerRuntime w) [''rmi'', loadedImage]")
  have a: "trace (restoreImage w loadedImage s)
             = trace s @
               [LogWarning ''Container name cannot be empty. Aborting.'',
                Exec (containerRuntime w) [''rmi'', loadedImage]
                  (combinedOutput w (containerRuntime w) [''rmi'', loadedImage])]"
    if "containerName = []"
    using that r s1 rm by (cases e3) (simp_all add: restoreImage_def prim_defs Let_def)
  have b: "trace (restoreImage w loadedImage s)
             = trace s2 @
               [Exec (containerRuntime w) [''rmi'', loadedImage]
                  (combinedOutput w (containerRuntime w) [''rmi'', loadedImage])]"
    if "containerName \<noteq> []" and "selectItem 2 s1 = (0, s2)"
    using that r s2 [OF that(2)] rm
    by (cases e3) (simp_all add: restoreImage_def prim_defs Let_def)
  have c: "trace (restoreImage w loadedImage s)
             = trace s2 @
               [Spawn ''Creating container...'',
                Signal,
                LogError ''Could not determine user home directory. Aborting isolated restore.'',
                Exec (containerRuntime w) [''rmi'', loadedImage]
                  (combinedOutput w (containerRuntime w) [''rmi'', loadedImage])]"
    if "containerName \<noteq> []" and "selectItem 2 s1 = (2, s2)"
      and "userHomeDir w = (homeDir, Some e)"
    using that r s2 [OF that(2)] rm
    by (cases e3) (simp_all add: restoreImage_def prim_defs Let_def)
  from a b c s2 r show ?thesis by auto
qed

section \<open>Edit: the two confirmations\<close>

text \<open>The conversion proper starts by stopping the container, on every path.\<close>

lemma performConversion_stop:
  assumes nb: "\<not> blocked s"
  shows "Exec (containerRuntime w) [''stop'', Name c]
           (combinedOutput w (containerRuntime w) [''stop'', Name c])
         \<in> set (trace (performConversion w c isIso hm target s))"
proof -
  obtain o0 e0 where r0: "combinedOutput w (containerRuntime w) [''stop'', Name c] = (o0, e0)"
    by (cases "combinedOutput w (containerRuntime w) [''stop'', Name c]")
  obtain o1 e1 where r1: "combinedOutput w (containerRuntime w)
      [''commit'', Name c, convertTempImageName w c] = (o1, e1)"
    by (cases "combinedOutput w (containerRuntime w)
                 [''commit'', Name c, convertTempImageName w c]")
  obtain o2 e2 where r2: "combinedOutput w ''distrobox-rm'' [Name c, ''--force''] = (o2, e2)"
    by (cases "combinedOutput w ''distrobox-rm'' [Name c, ''--force'']")
  obtain o3 e3 where r3: "combinedOutput w ''distrobox-create''
      ([''--name'', Name c, ''--image'', convertTempImageName w c]
         @ (if target = ''ISOLATED''
            then [''--home'', fst (getIsolatedHomePath w (Name c))] else [])) = (o3, e3)"
    by (cases "combinedOutput w ''distrobox-create''
      ([''--name'', Name c, ''--image'', convertTempImageName w c]
         @ (if target = ''ISOLATED''
            then [''--home'', fst (getIsolatedHomePath w (Name c))] else []))")
  obtain o4 e4 where r4: "combinedOutput w (containerRuntime w)
      [''rmi'', convertTempImageName w c] = (o4, e4)"
    by (cases "combinedOutput w (containerRuntime w) [''rmi'', convertTempImageName w c]")
  show ?thesis
  proof (cases e0)
    case Some
    with nb r0 show ?thesis by (simp add: performConversion_def prim_defs Let_def)
  next
    case None
    note c0 = this
    show ?thesis
    proof (cases e1)
      case Some
      with nb r0 c0 r1 show ?thesis by (simp add: performConversion_def prim_defs Let_def)
    next
      case None
      note c1 = this
      show ?thesis
      proof (cases e2)
        case Some
        with nb r0 c0 r1 c1 r2 r4 show ?thesis
          by (simp add: performConversion_def prim_defs Let_def)
      next
        case None
        note c2 = this
        show ?thesis
        proof (cases e3)
          case Some
          with nb r0 c0 r1 c1 r2 c2 r3 show ?thesis
            by (simp add: performConversion_def prim_defs Let_def)
        next
          case None
          with nb r0 c0 r1 c1 r2 c2 r3 r4 show ?thesis
            by (cases isIso; cases "removeAll w hm")
               (simp_all add: performConversion_def prim_defs Let_def)
        qed
      qed
    qed
  qed
qed

text \<open>
  Claim C5. Let the container chosen in Edit be isolated. The workflow then reads two
  answers, one after the other. If the first or the second is not \<open>y\<close>, the run ends with
  the line \<open>Edit cancelled.\<close> and has executed no external command and removed no
  directory. If both are \<open>y\<close>, the conversion starts: the stop command is executed.
\<close>

theorem handleEdit_confirmations:
  assumes nb: "\<not> blocked s0"
    and sel: "selectItem (length containers) s0 = (i, s1)" and i: "i \<noteq> 0"
    and iso: "isContainerIsolated w (Name (containers ! (i - 1))) = (True, hm)"
  shows "(\<not> fst (confirmAction s1) \<or> \<not> fst (confirmAction (snd (confirmAction s1))) \<longrightarrow>
            filter isEffect (trace (handleEdit w containers s0)) = filter isEffect (trace s0)
            \<and> last (trace (handleEdit w containers s0)) = LogInfo ''Edit cancelled.'')
       \<and> (fst (confirmAction s1) \<and> fst (confirmAction (snd (confirmAction s1))) \<longrightarrow>
            Exec (containerRuntime w) [''stop'', Name (containers ! (i - 1))]
              (combinedOutput w (containerRuntime w)
                 [''stop'', Name (containers ! (i - 1))])
            \<in> set (trace (handleEdit w containers s0)))"
proof -
  from selectItem_state [of "length containers" s0] sel nb
  have s1: "\<not> blocked s1" "filter isEffect (trace s1) = filter isEffect (trace s0)"
    by simp_all
  note defs = handleEdit_def confirmAction_def readUserInput_def logInfo_def logWarning_def
    emit_def Let_def
  show ?thesis
  proof (cases "stdin s1")
    case Nil
    with sel i iso s1 show ?thesis by (simp add: defs ToLower_def)
  next
    case (Cons a rest)
    note in1 = this
    show ?thesis
    proof (cases "ToLower (TrimSpace a) = ''y''")
      case False
      with in1 sel i iso s1 show ?thesis by (simp add: defs)
    next
      case True
      note yes1 = this
      show ?thesis
      proof (cases rest)
        case Nil
        with yes1 in1 sel i iso s1 show ?thesis by (simp add: defs ToLower_def)
      next
        case (Cons b rest')
        note in2 = this
        show ?thesis
        proof (cases "ToLower (TrimSpace b) = ''y''")
          case False
          with in2 yes1 in1 sel i iso s1 show ?thesis by (simp add: defs)
        next
          case True
          with in2 yes1 in1 sel i iso s1 show ?thesis
            by (simp add: defs performConversion_stop)
        qed
      qed
    qed
  qed
qed

theorem handleEdit_confirmations_witness:
  "filter isEffect
     (trace (handleEdit
               (exampleWorld createFails [''/home/u/.local/share/distrobox/homes/dev''])
               [exampleContainer] (initial [''1'', ''y'', ''n''])))
     = []
   \<and> last (trace (handleEdit
                    (exampleWorld createFails [''/home/u/.local/share/distrobox/homes/dev''])
                    [exampleContainer] (initial [''1'', ''y'', ''n''])))
     = LogInfo ''Edit cancelled.''
   \<and> Exec ''podman'' [''stop'', ''dev''] ([], None)
       \<in> set (trace (handleEdit
                        (exampleWorld createFails
                           [''/home/u/.local/share/distrobox/homes/dev''])
                        [exampleContainer] (initial [''1'', ''y'', ''Y''])))"
proof -
  let ?w = "exampleWorld createFails [''/home/u/.local/share/distrobox/homes/dev'']"
  have nb: "\<not> blocked (initial inp)" for inp by (simp add: initial_def)
  have sel1: "selectItem (length [exampleContainer]) (initial [''1'', ''y'', ''n''])
                = (1, initial [''y'', ''n''])"
    by code_simp
  have sel2: "selectItem (length [exampleContainer]) (initial [''1'', ''y'', ''Y''])
                = (1, initial [''y'', ''Y''])"
    by code_simp
  have i: "(1::nat) \<noteq> 0" by simp
  have iso: "isContainerIsolated ?w (Name ([exampleContainer] ! (1 - 1)))
               = (True, ''/home/u/.local/share/distrobox/homes/dev'')"
    by code_simp
  have c1: "fst (confirmAction (initial [''y'', ''n'']))"
    "\<not> fst (confirmAction (snd (confirmAction (initial [''y'', ''n'']))))"
    by code_simp+
  have c2: "fst (confirmAction (initial [''y'', ''Y'']))"
    "fst (confirmAction (snd (confirmAction (initial [''y'', ''Y'']))))"
    by code_simp+
  have ev: "containerRuntime ?w = ''podman''" "Name ([exampleContainer] ! (1 - 1)) = ''dev''"
    "combinedOutput ?w ''podman'' [''stop'', ''dev''] = ([], None)"
    "trace (initial [''1'', ''y'', ''n'']) = []"
    by (simp_all add: exampleWorld_def exampleContainer_def createFails_def initial_def)
  from handleEdit_confirmations [OF nb sel1 i iso] c1
  have 1: "filter isEffect (trace (handleEdit ?w [exampleContainer]
                                     (initial [''1'', ''y'', ''n'']))) = []
           \<and> last (trace (handleEdit ?w [exampleContainer] (initial [''1'', ''y'', ''n''])))
             = LogInfo ''Edit cancelled.''"
    unfolding ev by simp
  from handleEdit_confirmations [OF nb sel2 i iso] c2
  have 2: "Exec ''podman'' [''stop'', ''dev''] ([], None)
           \<in> set (trace (handleEdit ?w [exampleContainer] (initial [''1'', ''y'', ''Y''])))"
    unfolding ev by simp
  from 1 2 show ?thesis by blast
qed

section \<open>Restore: the name of the loaded image\<close>

lemma selectFile_state:
  "blocked (snd (selectFile w title pat s)) = blocked s
   \<and> listening (snd (selectFile w title pat s)) = listening s"
proof -
  have p: "blocked (snd (promptFile w t)) = blocked t
           \<and> listening (snd (promptFile w t)) = listening t" for t
    using readUserInput_state [of t]
    by (cases "readUserInput t") (simp add: promptFile_def Let_def)
  show ?thesis
  proof (cases "guiFilePicker w = []")
    case True
    with p show ?thesis by (simp add: selectFile_def)
  next
    case False
    obtain out err where r: "cmdOutput w
        (if guiFilePicker w = ''zenity'' then ''zenity'' else ''kdialog'')
        (if guiFilePicker w = ''zenity''
         then [''--file-selection'', ''--title='' @ title, ''--file-filter='' @ pat]
         else [''--getopenfilename'', ''.'', pat, ''--title'', title]) = (out, err)"
      by (cases "cmdOutput w
        (if guiFilePicker w = ''zenity'' then ''zenity'' else ''kdialog'')
        (if guiFilePicker w = ''zenity''
         then [''--file-selection'', ''--title='' @ title, ''--file-filter='' @ pat]
         else [''--getopenfilename'', ''.'', pat, ''--title'', title])")
    from False r p show ?thesis
      by (cases err) (simp_all add: selectFile_def Let_def logWarning_def emit_def)
  qed
qed

lemma findLoadedImage_none:
  "\<forall>l \<in> set lines. \<not> sublist ''Loaded image:'' l \<Longrightarrow> findLoadedImage lines = []"
  by (induction lines) (simp_all add: Contains_sublist)

lemma findLoadedImage_line:
  assumes "Index l ''Loaded image:'' = Some m"
  shows "findLoadedImage (l # ls) = TrimSpace (drop (m + length ''Loaded image:'') l)"
  using assms by (simp add: Contains_def numeral_2_eq_2)

lemma findLoadedImage_first:
  assumes "find (\<lambda>l. sublist ''Loaded image:'' l) lines = Some l"
    and "Index l ''Loaded image:'' = Some m"
  shows "findLoadedImage lines = TrimSpace (drop (m + length ''Loaded image:'') l)"
  using assms
proof (induction lines)
  case Nil
  then show ?case by simp
next
  case (Cons x xs)
  show ?case
  proof (cases "sublist ''Loaded image:'' x")
    case True
    with Cons.prems(1) have "x = l" by simp
    with Cons.prems(2) show ?thesis by (simp only: findLoadedImage_line)
  next
    case False
    with Cons show ?thesis by (simp add: Contains_sublist)
  qed
qed

text \<open>
  Claim C6. The name of the loaded image is taken from the first line of the output of the
  load command in which the marker \<open>Loaded image:\<close> occurs anywhere: it is the text after
  the first occurrence of the marker in that line, without the white space around it. When
  the marker occurs in no line, nothing is found. Restore then goes on as follows: when
  nothing is found it logs that the name cannot be determined and returns, having run no
  command but the load; otherwise it reports the name and continues with it.
\<close>

theorem findLoadedImage_marker:
  "(find (\<lambda>l. sublist ''Loaded image:'' l) lines = Some l
      \<and> l = pre @ ''Loaded image:'' @ post
      \<and> (\<forall>pre' post'. l = pre' @ ''Loaded image:'' @ post' \<longrightarrow> length pre \<le> length pre')
    \<longrightarrow> findLoadedImage lines = TrimSpace post)
   \<and> ((\<forall>l \<in> set lines. \<not> sublist ''Loaded image:'' l) \<longrightarrow> findLoadedImage lines = [])
   \<and> (\<not> blocked s0 \<and> \<not> listening s0
       \<and> selectFile w ''Select Backup File'' ''*.tar''
            (logInfo ''Please choose a backup file (.tar) to restore.'' s0)
          = ((backupFile, None), s2)
       \<and> backupFile \<noteq> []
       \<and> combinedOutput w (containerRuntime w) [''load'', ''-i'', backupFile] = (out, None)
     \<longrightarrow> (findLoadedImage (Split out [CHR 0x0A]) = [] \<longrightarrow>
            trace (handleRestore w s0)
              = trace s2 @
                [LogInfo (''Loading image from '' @ [CHR 0x27] @ backupFile @ [CHR 0x27]
                          @ ''...''),
                 Spawn ''Loading...'',
                 Exec (containerRuntime w) [''load'', ''-i'', backupFile] (out, None),
                 Signal,
                 LogError ''Could not determine the name of the loaded image. Aborting.''])
        \<and> (findLoadedImage (Split out [CHR 0x0A]) \<noteq> [] \<longrightarrow>
            (\<exists>s7. handleRestore w s0
                    = restoreImage w (findLoadedImage (Split out [CHR 0x0A])) s7
                  \<and> trace s7
                    = trace s2 @
                      [LogInfo (''Loading image from '' @ [CHR 0x27] @ backupFile
                                @ [CHR 0x27] @ ''...''),
                       Spawn ''Loading...'',
                       Exec (containerRuntime w) [''load'', ''-i'', backupFile] (out, None),
                       Signal,
                       LogSuccess (''Image '' @ [CHR 0x27]
                                   @ findLoadedImage (Split out [CHR 0x0A])
                                   @ [CHR 0x27] @ '' loaded successfully.'')])))"
proof (intro conjI impI)
  assume a: "find (\<lambda>l. sublist ''Loaded image:'' l) lines = Some l
      \<and> l = pre @ ''Loaded image:'' @ post
      \<and> (\<forall>pre' post'. l = pre' @ ''Loaded image:'' @ post' \<longrightarrow> length pre \<le> length pre')"
  then have l: "l = pre @ ''Loaded image:'' @ post" by blast
  then have "sublist ''Loaded image:'' l" by (auto simp: sublist_def)
  then obtain m where m: "Index l ''Loaded image:'' = Some m"
    using Index_None_iff [of l "''Loaded image:''"] by (cases "Index l ''Loaded image:''") auto
  from Index_Some_least [OF m l] have le: "m \<le> length pre" .
  from Index_Some_split [OF m] a have "length pre \<le> length (take m l)" by blast
  with le have "m = length pre" by simp
  with l have "drop (m + length ''Loaded image:'') l = post" by simp
  with findLoadedImage_first [OF _ m, of lines] a
  show "findLoadedImage lines = TrimSpace post" by simp
next
  assume "\<forall>l \<in> set lines. \<not> sublist ''Loaded image:'' l"
  then show "findLoadedImage lines = []" by (rule findLoadedImage_none)
next
  assume h: "\<not> blocked s0 \<and> \<not> listening s0
       \<and> selectFile w ''Select Backup File'' ''*.tar''
            (logInfo ''Please choose a backup file (.tar) to restore.'' s0)
          = ((backupFile, None), s2)
       \<and> backupFile \<noteq> []
       \<and> combinedOutput w (containerRuntime w) [''load'', ''-i'', backupFile] = (out, None)"
    and e: "findLoadedImage (Split out [CHR 0x0A]) = []"
  from h have flags: "\<not> blocked s0" "\<not> listening s0"
    and sf: "selectFile w ''Select Backup File'' ''*.tar''
               (logInfo ''Please choose a backup file (.tar) to restore.'' s0)
             = ((backupFile, None), s2)"
    and ne: "backupFile \<noteq> []"
    and ld: "combinedOutput w (containerRuntime w) [''load'', ''-i'', backupFile]
             = (out, None)"
    by simp_all
  from flags sf selectFile_state [of w "''Select Backup File''" "''*.tar''"
         "logInfo ''Please choose a backup file (.tar) to restore.'' s0"]
  have s2: "\<not> blocked s2" "\<not> listening s2" by (simp_all add: logInfo_def emit_def)
  from sf ne ld e s2
  show "trace (handleRestore w s0)
          = trace s2 @
            [LogInfo (''Loading image from '' @ [CHR 0x27] @ backupFile @ [CHR 0x27] @ ''...''),
             Spawn ''Loading...'',
             Exec (containerRuntime w) [''load'', ''-i'', backupFile] (out, None),
             Signal,
             LogError ''Could not determine the name of the loaded image. Aborting.'']"
    by (simp only: handleRestore_def Let_def) (simp add: prim_defs)
next
  assume h: "\<not> blocked s0 \<and> \<not> listening s0
       \<and> selectFile w ''Select Backup File'' ''*.tar''
            (logInfo ''Please choose a backup file (.tar) to restore.'' s0)
          = ((backupFile, None), s2)
       \<and> backupFile \<noteq> []
       \<and> combinedOutput w (containerRuntime w) [''load'', ''-i'', backupFile] = (out, None)"
    and e: "findLoadedImage (Split out [CHR 0x0A]) \<noteq> []"
  from h have flags: "\<not> blocked s0" "\<not> listening s0"
    and sf: "selectFile w ''Select Backup File'' ''*.tar''
               (logInfo ''Please choose a backup file (.tar) to restore.'' s0)
             = ((backupFile, None), s2)"
    and ne: "backupFile \<noteq> []"
    and ld: "combinedOutput w (containerRuntime w) [''load'', ''-i'', backupFile]
             = (out, None)"
    by simp_all
  from flags sf selectFile_state [of w "''Select Backup File''" "''*.tar''"
         "logInfo ''Please choose a backup file (.tar) to restore.'' s0"]
  have s2: "\<not> blocked s2" "\<not> listening s2" by (simp_all add: logInfo_def emit_def)
  from sf ne ld e s2
  show "\<exists>s7. handleRestore w s0 = restoreImage w (findLoadedImage (Split out [CHR 0x0A])) s7
             \<and> trace s7
               = trace s2 @
                 [LogInfo (''Loading image from '' @ [CHR 0x27] @ backupFile @ [CHR 0x27]
                           @ ''...''),
                  Spawn ''Loading...'',
                  Exec (containerRuntime w) [''load'', ''-i'', backupFile] (out, None),
                  Signal,
                  LogSuccess (''Image '' @ [CHR 0x27] @ findLoadedImage (Split out [CHR 0x0A])
                              @ [CHR 0x27] @ '' loaded successfully.'')]"
    apply (simp only: handleRestore_def Let_def)
    apply (simp add: prim_defs)
    apply (rule exI, rule conjI, rule refl)
    apply simp
    done
qed

theorem findLoadedImage_marker_witness:
  "findLoadedImage (Split exampleLoadOutput [CHR 0x0A]) = ''myimg:123''
   \<and> findLoadedImage [''Getting image source signatures''] = []
   \<and> trace (handleRestore (exampleWorld loadSilent [''/tmp/b/dev1.tar''])
              (initial [''/tmp/b/dev1.tar'', ''dev2'', ''1'']))
     = [LogInfo ''Please choose a backup file (.tar) to restore.'',
        LogInfo ''Loading image from '/tmp/b/dev1.tar'...'',
        Spawn ''Loading...'',
        Exec ''podman'' [''load'', ''-i'', ''/tmp/b/dev1.tar'']
          (''Getting image source signatures'', None),
        Signal,
        LogError ''Could not determine the name of the loaded image. Aborting.'']"
proof -
  let ?w = "exampleWorld loadSilent [''/tmp/b/dev1.tar'']"
  let ?s0 = "initial [''/tmp/b/dev1.tar'', ''dev2'', ''1'']"
  let ?s2 = "\<lparr>stdin = [''dev2'', ''1''],
              trace = [LogInfo ''Please choose a backup file (.tar) to restore.''],
              listening = False, blocked = False\<rparr>"
  have c: "(\<lambda>l. sublist ''Loaded image:'' l) = (\<lambda>l. Contains l ''Loaded image:'')"
    by (simp add: Contains_sublist)
  have f: "find (\<lambda>l. Contains l ''Loaded image:'') (Split exampleLoadOutput [CHR 0x0A])
             = Some ''Loaded image: myimg:123''"
    by code_simp
  have t: "TrimSpace '' myimg:123'' = ''myimg:123''" by code_simp
  have n: "\<forall>l \<in> set [''Getting image source signatures'']. \<not> Contains l ''Loaded image:''"
    by code_simp
  note inst = findLoadedImage_marker [where l = "''Loaded image: myimg:123''" and pre = "[]"
      and post = "'' myimg:123''"
      and ?s0.0 = "initial [''/tmp/b/dev1.tar'', ''dev2'', ''1'']"
      and w = "exampleWorld loadSilent [''/tmp/b/dev1.tar'']"
      and backupFile = "''/tmp/b/dev1.tar''"
      and ?s2.0 = "\<lparr>stdin = [''dev2'', ''1''],
                    trace = [LogInfo ''Please choose a backup file (.tar) to restore.''],
                    listening = False, blocked = False\<rparr>"
      and out = "''Getting image source signatures''"]
  from inst [where lines = "Split exampleLoadOutput [CHR 0x0A]"] f t
  have 1: "findLoadedImage (Split exampleLoadOutput [CHR 0x0A]) = ''myimg:123''"
    unfolding c by simp
  from inst [where lines = "[''Getting image source signatures'']"] n
  have 2: "findLoadedImage [''Getting image source signatures''] = []"
    unfolding c by blast
  have h: "\<not> blocked ?s0" "\<not> listening ?s0"
    "selectFile ?w ''Select Backup File'' ''*.tar''
       (logInfo ''Please choose a backup file (.tar) to restore.'' ?s0)
     = ((''/tmp/b/dev1.tar'', None), ?s2)"
    "combinedOutput ?w (containerRuntime ?w) [''load'', ''-i'', ''/tmp/b/dev1.tar'']
     = (''Getting image source signatures'', None)"
    "findLoadedImage (Split ''Getting image source signatures'' [CHR 0x0A]) = []"
    by code_simp+
  from inst [where lines = "[]"] h
  have 3: "trace (handleRestore ?w ?s0)
             = [LogInfo ''Please choose a backup file (.tar) to restore.'',
                LogInfo ''Loading image from '/tmp/b/dev1.tar'...'',
                Spawn ''Loading...'',
                Exec ''podman'' [''load'', ''-i'', ''/tmp/b/dev1.tar'']
                  (''Getting image source signatures'', None),
                Signal,
                LogError ''Could not determine the name of the loaded image. Aborting.'']"
    by (simp add: exampleWorld_def)
  from 1 2 3 show ?thesis by blast
qed

section \<open>Edit as a whole: failure of the replacement\<close>

text \<open>Once the container is chosen and the conversion confirmed (twice when the
  container is isolated), \<open>handleEdit\<close> enters the conversion proper with no indicator
  running, having logged the question and, for an isolated container, the three warning
  lines, and nothing else.\<close>

lemma handleEdit_reaches_conversion:
  assumes nb: "\<not> blocked s0" and nl: "\<not> listening s0"
    and sel: "selectItem (length containers) s0 = (i, s1)" and i: "i \<noteq> 0"
    and iso: "isContainerIsolated w (Name (containers ! (i - 1))) = (isIso, hm)"
    and yes1: "fst (confirmAction s1)"
    and yes2: "isIso \<longrightarrow> fst (confirmAction (snd (confirmAction s1)))"
  shows "\<exists>s. handleEdit w containers s0
               = performConversion w (containers ! (i - 1)) isIso hm
                   (if isIso then ''STANDARD'' else ''ISOLATED'') s
             \<and> \<not> blocked s \<and> \<not> listening s
             \<and> trace s
               = trace s1 @
                 [LogInfo (''Container '' @ [CHR 0x27] @ Name (containers ! (i - 1))
                           @ [CHR 0x27] @ '' is currently ''
                           @ (if isIso then ''ISOLATED. Convert to STANDARD?''
                              else ''STANDARD. Convert to ISOLATED?''))]
                 @ (if isIso
                    then [LogWarning ''Converting to STANDARD will PERMANENTLY DELETE the isolated home directory:'',
                          LogWarning hm,
                          LogWarning ''All data inside will be lost. The container will use your host's home directory instead.'']
                    else [])"
proof -
  from selectItem_state [of "length containers" s0] sel nb nl
  have s1: "\<not> blocked s1" "\<not> listening s1" by simp_all
  note defs = handleEdit_def confirmAction_def readUserInput_def logInfo_def logWarning_def
    emit_def Let_def
  from yes1 s1 obtain a rest where in1: "stdin s1 = a # rest"
    and y1: "ToLower (TrimSpace a) = ''y''"
    by (cases "stdin s1") (auto simp: confirmAction_def readUserInput_def ToLower_def)
  show ?thesis
  proof (cases isIso)
    case False
    with in1 y1 sel i iso s1 show ?thesis
      apply (simp add: defs)
      apply (rule exI, rule conjI, rule refl)
      apply simp
      done
  next
    case True
    with yes2 in1 y1 s1 obtain b rest' where in2: "rest = b # rest'"
      and y2: "ToLower (TrimSpace b) = ''y''"
      by (cases rest) (auto simp: confirmAction_def readUserInput_def ToLower_def)
    with True in1 y1 sel i iso s1 show ?thesis
      apply (simp add: defs)
      apply (rule exI, rule conjI, rule refl)
      apply simp
      done
  qed
qed

text \<open>
  Claim C4. Let a container be chosen in Edit and the conversion be confirmed. When the
  container is stopped, committed and removed, and the creation of the replacement then
  fails, the whole run of \<open>handleEdit\<close> is: the question (and the warning lines of an
  isolated source), the four commands, the completion signal, two error lines and the line
  naming the temporary image. Its only effects are the four commands: no image is removed
  and no directory is deleted, whether or not the source was isolated; and the workflow
  returns.
\<close>

theorem handleEdit_create_failure:
  assumes nb: "\<not> blocked s0" and nl: "\<not> listening s0"
    and sel: "selectItem (length containers) s0 = (i, s1)" and i: "i \<noteq> 0"
    and c: "c = containers ! (i - 1)"
    and iso: "isContainerIsolated w (Name c) = (isIso, hm)"
    and yes1: "fst (confirmAction s1)"
    and yes2: "isIso \<longrightarrow> fst (confirmAction (snd (confirmAction s1)))"
    and stop: "combinedOutput w (containerRuntime w) [''stop'', Name c] = (out1, None)"
    and commit: "combinedOutput w (containerRuntime w)
                   [''commit'', Name c, convertTempImageName w c] = (out2, None)"
    and rm: "combinedOutput w ''distrobox-rm'' [Name c, ''--force''] = (out3, None)"
    and args: "args = [''--name'', Name c, ''--image'', convertTempImageName w c]
                      @ (if isIso then []
                         else [''--home'', fst (getIsolatedHomePath w (Name c))])"
    and create: "combinedOutput w ''distrobox-create'' args = (out4, Some e)"
  shows "trace (handleEdit w containers s0)
           = trace s1 @
             [LogInfo (''Container '' @ [CHR 0x27] @ Name c @ [CHR 0x27] @ '' is currently ''
                       @ (if isIso then ''ISOLATED. Convert to STANDARD?''
                          else ''STANDARD. Convert to ISOLATED?''))]
             @ (if isIso
                then [LogWarning ''Converting to STANDARD will PERMANENTLY DELETE the isolated home directory:'',
                      LogWarning hm,
                      LogWarning ''All data inside will be lost. The container will use your host's home directory instead.'']
                else [])
             @ [Spawn ''Converting container...'',
                Exec (containerRuntime w) [''stop'', Name c] (out1, None),
                Exec (containerRuntime w) [''commit'', Name c, convertTempImageName w c]
                  (out2, None),
                Exec ''distrobox-rm'' [Name c, ''--force''] (out3, None),
                Exec ''distrobox-create'' args (out4, Some e),
                Signal,
                LogError (''Failed to create the new ''
                          @ (if isIso then ''STANDARD'' else ''ISOLATED'') @ '' container.''),
                LogError ''The temporary image and data have been kept for manual recovery.'',
                LogInfo (''Temporary image: '' @ convertTempImageName w c)]
       \<and> filter isEffect (trace (handleEdit w containers s0))
           = filter isEffect (trace s0) @
             [Exec (containerRuntime w) [''stop'', Name c] (out1, None),
              Exec (containerRuntime w) [''commit'', Name c, convertTempImageName w c]
                (out2, None),
              Exec ''distrobox-rm'' [Name c, ''--force''] (out3, None),
              Exec ''distrobox-create'' args (out4, Some e)]
       \<and> \<not> blocked (handleEdit w containers s0)
       \<and> \<not> listening (handleEdit w containers s0)"
proof -
  from selectItem_state [of "length containers" s0] sel
  have eff: "filter isEffect (trace s1) = filter isEffect (trace s0)" by simp
  from handleEdit_reaches_conversion [OF nb nl sel i iso [unfolded c] yes1 yes2] c
  obtain s where run: "handleEdit w containers s0
                         = performConversion w c isIso hm
                             (if isIso then ''STANDARD'' else ''ISOLATED'') s"
    and fl: "\<not> blocked s" "\<not> listening s"
    and tr: "trace s
               = trace s1 @
                 [LogInfo (''Container '' @ [CHR 0x27] @ Name c @ [CHR 0x27]
                           @ '' is currently ''
                           @ (if isIso then ''ISOLATED. Convert to STANDARD?''
                              else ''STANDARD. Convert to ISOLATED?''))]
                 @ (if isIso
                    then [LogWarning ''Converting to STANDARD will PERMANENTLY DELETE the isolated home directory:'',
                          LogWarning hm,
                          LogWarning ''All data inside will be lost. The container will use your host's home directory instead.'']
                    else [])"
    by auto
  have args': "args = [''--name'', Name c, ''--image'', convertTempImageName w c]
                      @ (if (if isIso then ''STANDARD'' else ''ISOLATED'') = ''ISOLATED''
                         then [''--home'', fst (getIsolatedHomePath w (Name c))] else [])"
    using args by simp
  note pc = performConversion_create_failure [OF fl stop commit rm args' create,
      of isIso hm]
  from pc have t: "trace (handleEdit w containers s0)
      = trace s @
        [Spawn ''Converting container...'',
         Exec (containerRuntime w) [''stop'', Name c] (out1, None),
         Exec (containerRuntime w) [''commit'', Name c, convertTempImageName w c]
           (out2, None),
         Exec ''distrobox-rm'' [Name c, ''--force''] (out3, None),
         Exec ''distrobox-create'' args (out4, Some e),
         Signal,
         LogError (''Failed to create the new ''
                   @ (if isIso then ''STANDARD'' else ''ISOLATED'') @ '' container.''),
         LogError ''The temporary image and data have been kept for manual recovery.'',
         LogInfo (''Temporary image: '' @ convertTempImageName w c)]"
    unfolding run by blast
  from pc have f: "\<not> blocked (handleEdit w containers s0)"
    "\<not> listening (handleEdit w containers s0)"
    unfolding run by blast+
  from t tr eff f show ?thesis by (cases isIso) simp_all
qed

theorem handleEdit_create_failure_witness:
  "filter isEffect
     (trace (handleEdit
               (exampleWorld createFails [''/home/u/.local/share/distrobox/homes/dev''])
               [exampleContainer] (initial [''1'', ''y'', ''Y''])))
     = [Exec ''podman'' [''stop'', ''dev''] ([], None),
        Exec ''podman'' [''commit'', ''dev'', ''distrobox-convert-1:1700000000''] ([], None),
        Exec ''distrobox-rm'' [''dev'', ''--force''] ([], None),
        Exec ''distrobox-create'' [''--name'', ''dev'', ''--image'',
                                   ''distrobox-convert-1:1700000000'']
          (''cannot create'', Some ''exit status 1'')]
   \<and> last (trace (handleEdit
                    (exampleWorld createFails [''/home/u/.local/share/distrobox/homes/dev''])
                    [exampleContainer] (initial [''1'', ''y'', ''Y''])))
     = LogInfo ''Temporary image: distrobox-convert-1:1700000000''"
proof -
  let ?w = "exampleWorld createFails [''/home/u/.local/share/distrobox/homes/dev'']"
  have n: "convertTempImageName ?w exampleContainer = ''distrobox-convert-1:1700000000''"
    by code_simp
  have fl: "\<not> blocked (initial [''1'', ''y'', ''Y''])"
    "\<not> listening (initial [''1'', ''y'', ''Y''])"
    by (simp_all add: initial_def)
  have sel: "selectItem (length [exampleContainer]) (initial [''1'', ''y'', ''Y''])
               = (1, initial [''y'', ''Y''])"
    by code_simp
  have i: "(1::nat) \<noteq> 0" by simp
  have c: "exampleContainer = [exampleContainer] ! (1 - 1)" by simp
  have iso: "isContainerIsolated ?w (Name exampleContainer)
               = (True, ''/home/u/.local/share/distrobox/homes/dev'')"
    by code_simp
  have y1: "fst (confirmAction (initial [''y'', ''Y'']))" by code_simp
  have y2: "True \<longrightarrow> fst (confirmAction (snd (confirmAction (initial [''y'', ''Y'']))))"
    by code_simp
  have stop: "combinedOutput ?w (containerRuntime ?w) [''stop'', Name exampleContainer]
                = ([], None)"
    by (simp add: exampleWorld_def createFails_def)
  have commit: "combinedOutput ?w (containerRuntime ?w)
                  [''commit'', Name exampleContainer,
                   convertTempImageName ?w exampleContainer] = ([], None)"
    by (simp add: exampleWorld_def createFails_def)
  have rm: "combinedOutput ?w ''distrobox-rm'' [Name exampleContainer, ''--force'']
              = ([], None)"
    by (simp add: exampleWorld_def createFails_def)
  have args: "[''--name'', ''dev'', ''--image'', ''distrobox-convert-1:1700000000'']
                = [''--name'', Name exampleContainer, ''--image'',
                   convertTempImageName ?w exampleContainer]
                  @ (if True then []
                     else [''--home'', fst (getIsolatedHomePath ?w (Name exampleContainer))])"
    unfolding n by (simp add: exampleContainer_def)
  have create: "combinedOutput ?w ''distrobox-create''
                  [''--name'', ''dev'', ''--image'', ''distrobox-convert-1:1700000000'']
                  = (''cannot create'', Some ''exit status 1'')"
    by (simp add: exampleWorld_def createFails_def)
  note r = handleEdit_create_failure [OF fl sel i c iso y1 y2 stop commit rm args create]
  have ev: "containerRuntime ?w = ''podman''" "Name exampleContainer = ''dev''"
    "trace (initial [''1'', ''y'', ''Y'']) = []"
    by (simp_all add: exampleWorld_def exampleContainer_def initial_def)
  from r [THEN conjunct2, THEN conjunct1]
  have 1: "filter isEffect (trace (handleEdit ?w [exampleContainer]
                                            (initial [''1'', ''y'', ''Y''])))
                    = [Exec ''podman'' [''stop'', ''dev''] ([], None),
                       Exec ''podman'' [''commit'', ''dev'', ''distrobox-convert-1:1700000000'']
                         ([], None),
                       Exec ''distrobox-rm'' [''dev'', ''--force''] ([], None),
                       Exec ''distrobox-create'' [''--name'', ''dev'', ''--image'',
                                                  ''distrobox-convert-1:1700000000'']
                         (''cannot create'', Some ''exit status 1'')]"
    unfolding n ev by simp
  from r [THEN conjunct1] have 2: "last (trace (handleEdit ?w [exampleContainer]
                                 (initial [''1'', ''y'', ''Y''])))
                    = LogInfo ''Temporary image: distrobox-convert-1:1700000000''"
    unfolding n by simp
  from 1 2 show ?thesis by blast
qed

section \<open>Restore as a whole\<close>

text \<open>Once the archive is chosen and loaded and the name of the image is found,
  \<open>handleRestore\<close> continues with that image in the state \<open>s7\<close>: the input left by
  the picker, the events of the load followed by the line reporting the image, and no
  indicator running.\<close>

lemma handleRestore_reaches_restoreImage:
  assumes nb: "\<not> blocked s0" and nl: "\<not> listening s0"
    and sf: "selectFile w ''Select Backup File'' ''*.tar''
               (logInfo ''Please choose a backup file (.tar) to restore.'' s0)
             = ((backupFile, None), s2)"
    and ne: "backupFile \<noteq> []"
    and ld: "combinedOutput w (containerRuntime w) [''load'', ''-i'', backupFile]
             = (out, None)"
    and img: "loadedImage = findLoadedImage (Split out [CHR 0x0A])" "loadedImage \<noteq> []"
    and s7: "stdin s7 = stdin s2"
      "trace s7 = trace s2 @
         [LogInfo (''Loading image from '' @ [CHR 0x27] @ backupFile @ [CHR 0x27] @ ''...''),
          Spawn ''Loading...'',
          Exec (containerRuntime w) [''load'', ''-i'', backupFile] (out, None),
          Signal,
          LogSuccess (''Image '' @ [CHR 0x27] @ loadedImage @ [CHR 0x27]
                      @ '' loaded successfully.'')]"
      "\<not> blocked s7" "\<not> listening s7"
  shows "handleRestore w s0 = restoreImage w loadedImage s7"
proof -
  from nb nl sf selectFile_state [of w "''Select Backup File''" "''*.tar''"
         "logInfo ''Please choose a backup file (.tar) to restore.'' s0"]
  have s2: "\<not> blocked s2" "\<not> listening s2" by (simp_all add: logInfo_def emit_def)
  have eq: "s2\<lparr>listening := False,
                trace := trace s2 @
                  [LogInfo (''Loading image from '' @ [CHR 0x27] @ backupFile @ [CHR 0x27]
                            @ ''...''),
                   Spawn ''Loading...'',
                   Exec (containerRuntime w) [''load'', ''-i'', backupFile] (out, None),
                   Signal,
                   LogSuccess (''Image '' @ [CHR 0x27] @ loadedImage @ [CHR 0x27]
                               @ '' loaded successfully.'')]\<rparr> = s7"
    using s7 s2 by (intro state.equality) simp_all
  from sf ne ld img s2 have "handleRestore w s0
      = restoreImage w loadedImage
          (s2\<lparr>listening := False,
               trace := trace s2 @
                 [LogInfo (''Loading image from '' @ [CHR 0x27] @ backupFile @ [CHR 0x27]
                           @ ''...''),
                  Spawn ''Loading...'',
                  Exec (containerRuntime w) [''load'', ''-i'', backupFile] (out, None),
                  Signal,
                  LogSuccess (''Image '' @ [CHR 0x27] @ loadedImage @ [CHR 0x27]
                              @ '' loaded successfully.'')]\<rparr>)"
    by (simp only: handleRestore_def Let_def) (simp add: prim_defs)
  with eq show ?thesis by simp
qed

text \<open>With a name for the new container and a kind chosen (and, for an isolated
  container, a home directory of the user), the steps after the load reach the creation
  with the indicator running, for that name and that image.\<close>

lemma restoreImage_reaches_creation:
  assumes fl: "\<not> blocked s" "\<not> listening s"
    and nm: "fst (readUserInput s) = containerName" "containerName \<noteq> []"
    and ty: "selectItem 2 (snd (readUserInput s)) = (restoreType, s3)" "restoreType \<noteq> 0"
    and hd: "restoreType = 2 \<longrightarrow> userHomeDir w = (homeDir, None)"
  shows "\<exists>t. restoreImage w loadedImage s
               = createRestored w containerName loadedImage
                   ([''--name'', containerName, ''--image'', loadedImage]
                    @ (if restoreType = 2
                       then [''--home'',
                             pathJoin w [homeDir, ''.local'', ''share'', ''distrobox'',
                                         ''homes'', containerName]]
                       else [])) t
             \<and> \<not> blocked t \<and> listening t
             \<and> trace t
               = trace s3 @ [Spawn ''Creating container...'']
                 @ (if restoreType = 2
                    then [LogInfo (Sprintf ''Creating new %sISOLATED%s container '%s'...''
                                     [Str colorBold, Str colorReset, Str containerName]),
                          LogInfo (''Container home will be at: ''
                                   @ pathJoin w [homeDir, ''.local'', ''share'',
                                                 ''distrobox'', ''homes'', containerName])]
                    else [LogInfo (Sprintf ''Creating new %sSTANDARD%s container '%s'...''
                                     [Str colorBold, Str colorReset, Str containerName])])"
proof -
  obtain s1 where r: "readUserInput s = (containerName, s1)"
    using nm(1) by (cases "readUserInput s") auto
  from readUserInput_state [of s] r fl
  have s1: "\<not> blocked s1" "\<not> listening s1" by simp_all
  from selectItem_state [of 2 s1] ty(1) r s1
  have s3: "\<not> blocked s3" "\<not> listening s3" by simp_all
  show ?thesis
  proof (cases "restoreType = 2")
    case True
    with hd have "userHomeDir w = (homeDir, None)" by simp
    with True r nm ty s3 show ?thesis
      apply (simp add: restoreImage_def logInfo_def logError_def emit_def spawnSpinner_def
                       sendDone_def Let_def)
      apply (rule exI, rule conjI, rule refl)
      apply simp
      done
  next
    case False
    with r nm ty s3 show ?thesis
      apply (simp add: restoreImage_def logInfo_def logError_def emit_def spawnSpinner_def
                       sendDone_def Let_def)
      apply (rule exI, rule conjI, rule refl)
      apply simp
      done
  qed
qed

text \<open>
  Claim C8. Let Restore have loaded the archive and found the name of the image, and let
  the user have entered a name for the new container and chosen its kind. When the
  creation command fails, the run of \<open>handleRestore\<close> ends with the failed command, the
  completion signal, two error lines and an information line naming the loaded image; its
  effects are the load and the failed creation, so the image is not removed. When the
  creation succeeds, the loaded image is removed next and the success line follows,
  whatever the removal returns.
\<close>

theorem handleRestore_creation:
  assumes nb: "\<not> blocked s0" and nl: "\<not> listening s0"
    and sf: "selectFile w ''Select Backup File'' ''*.tar''
               (logInfo ''Please choose a backup file (.tar) to restore.'' s0)
             = ((backupFile, None), s2)"
    and ne: "backupFile \<noteq> []"
    and ld: "combinedOutput w (containerRuntime w) [''load'', ''-i'', backupFile]
             = (out, None)"
    and img: "loadedImage = findLoadedImage (Split out [CHR 0x0A])" "loadedImage \<noteq> []"
    and s7: "stdin s7 = stdin s2"
      "trace s7 = trace s2 @
         [LogInfo (''Loading image from '' @ [CHR 0x27] @ backupFile @ [CHR 0x27] @ ''...''),
          Spawn ''Loading...'',
          Exec (containerRuntime w) [''load'', ''-i'', backupFile] (out, None),
          Signal,
          LogSuccess (''Image '' @ [CHR 0x27] @ loadedImage @ [CHR 0x27]
                      @ '' loaded successfully.'')]"
      "\<not> blocked s7" "\<not> listening s7"
    and nm: "fst (readUserInput s7) = containerName" "containerName \<noteq> []"
    and ty: "selectItem 2 (snd (readUserInput s7)) = (restoreType, s3)" "restoreType \<noteq> 0"
    and hd: "restoreType = 2 \<longrightarrow> userHomeDir w = (homeDir, None)"
    and args: "args = [''--name'', containerName, ''--image'', loadedImage]
                      @ (if restoreType = 2
                         then [''--home'',
                               pathJoin w [homeDir, ''.local'', ''share'', ''distrobox'',
                                           ''homes'', containerName]]
                         else [])"
    and info: "info = (if restoreType = 2
                       then [LogInfo (Sprintf ''Creating new %sISOLATED%s container '%s'...''
                                        [Str colorBold, Str colorReset, Str containerName]),
                             LogInfo (''Container home will be at: ''
                                      @ pathJoin w [homeDir, ''.local'', ''share'',
                                                    ''distrobox'', ''homes'', containerName])]
                       else [LogInfo (Sprintf ''Creating new %sSTANDARD%s container '%s'...''
                                        [Str colorBold, Str colorReset, Str containerName])])"
  shows "(combinedOutput w ''distrobox-create'' args = (out', Some e) \<longrightarrow>
            trace (handleRestore w s0)
              = trace s3 @ [Spawn ''Creating container...''] @ info @
                [Exec ''distrobox-create'' args (out', Some e),
                 Signal,
                 LogError (''Failed to create container '' @ [CHR 0x27] @ containerName
                           @ [CHR 0x27] @ ''.''),
                 LogError (''command '' @ [CHR 0x27] @ ''distrobox-create '' @ Join args '' ''
                           @ [CHR 0x27] @ '' failed: '' @ e @ [CHR 0x0A] @ ''Output: '' @ out'),
                 LogInfo (''The loaded image '' @ [CHR 0x27] @ loadedImage @ [CHR 0x27]
                          @ '' was kept. You can try creating the container again manually or remove the image.'')]
            \<and> filter isEffect (trace (handleRestore w s0))
                = filter isEffect (trace s2) @
                  [Exec (containerRuntime w) [''load'', ''-i'', backupFile] (out, None),
                   Exec ''distrobox-create'' args (out', Some e)])
       \<and> (combinedOutput w ''distrobox-create'' args = (out', None) \<longrightarrow>
            trace (handleRestore w s0)
              = trace s3 @ [Spawn ''Creating container...''] @ info @
                [Exec ''distrobox-create'' args (out', None),
                 Signal,
                 Exec (containerRuntime w) [''rmi'', loadedImage]
                   (combinedOutput w (containerRuntime w) [''rmi'', loadedImage]),
                 LogSuccess (checkMark @ '' Container '' @ [CHR 0x27] @ containerName
                             @ [CHR 0x27] @ '' restored successfully!'')]
            \<and> filter isEffect (trace (handleRestore w s0))
                = filter isEffect (trace s2) @
                  [Exec (containerRuntime w) [''load'', ''-i'', backupFile] (out, None),
                   Exec ''distrobox-create'' args (out', None),
                   Exec (containerRuntime w) [''rmi'', loadedImage]
                     (combinedOutput w (containerRuntime w) [''rmi'', loadedImage])])"
proof -
  note run1 = handleRestore_reaches_restoreImage [OF nb nl sf ne ld img s7]
  from restoreImage_reaches_creation [OF s7(3,4) nm ty hd, of loadedImage] args info
  obtain t where run2: "restoreImage w loadedImage s7
                          = createRestored w containerName loadedImage args t"
    and fl: "\<not> blocked t" "listening t"
    and tr: "trace t = trace s3 @ [Spawn ''Creating container...''] @ info"
    by auto
  from selectItem_state [of 2 "snd (readUserInput s7)"] ty(1) readUserInput_state [of s7] s7(2)
  have eff: "filter isEffect (trace s3)
               = filter isEffect (trace s2) @
                 [Exec (containerRuntime w) [''load'', ''-i'', backupFile] (out, None)]"
    by simp
  have inf: "filter isEffect info = []"
    using info by simp
  note cr = createRestored_outcomes [OF fl, of w args out' e containerName loadedImage]
  show ?thesis
  proof (intro conjI impI)
    assume a: "combinedOutput w ''distrobox-create'' args = (out', Some e)"
    with cr show "trace (handleRestore w s0)
              = trace s3 @ [Spawn ''Creating container...''] @ info @
                [Exec ''distrobox-create'' args (out', Some e),
                 Signal,
                 LogError (''Failed to create container '' @ [CHR 0x27] @ containerName
                           @ [CHR 0x27] @ ''.''),
                 LogError (''command '' @ [CHR 0x27] @ ''distrobox-create '' @ Join args '' ''
                           @ [CHR 0x27] @ '' failed: '' @ e @ [CHR 0x0A] @ ''Output: '' @ out'),
                 LogInfo (''The loaded image '' @ [CHR 0x27] @ loadedImage @ [CHR 0x27]
                          @ '' was kept. You can try creating the container again manually or remove the image.'')]"
      unfolding run1 run2 tr by simp
    then show "filter isEffect (trace (handleRestore w s0))
                = filter isEffect (trace s2) @
                  [Exec (containerRuntime w) [''load'', ''-i'', backupFile] (out, None),
                   Exec ''distrobox-create'' args (out', Some e)]"
      using eff inf by simp
  next
    assume a: "combinedOutput w ''distrobox-create'' args = (out', None)"
    with cr show "trace (handleRestore w s0)
              = trace s3 @ [Spawn ''Creating container...''] @ info @
                [Exec ''distrobox-create'' args (out', None),
                 Signal,
                 Exec (containerRuntime w) [''rmi'', loadedImage]
                   (combinedOutput w (containerRuntime w) [''rmi'', loadedImage]),
                 LogSuccess (checkMark @ '' Container '' @ [CHR 0x27] @ containerName
                             @ [CHR 0x27] @ '' restored successfully!'')]"
      unfolding run1 run2 tr by simp
    then show "filter isEffect (trace (handleRestore w s0))
                = filter isEffect (trace s2) @
                  [Exec (containerRuntime w) [''load'', ''-i'', backupFile] (out, None),
                   Exec ''distrobox-create'' args (out', None),
                   Exec (containerRuntime w) [''rmi'', loadedImage]
                     (combinedOutput w (containerRuntime w) [''rmi'', loadedImage])]"
      using eff inf by simp
  qed
qed

theorem handleRestore_creation_witness:
  "filter isEffect
     (trace (handleRestore (exampleWorld loadOkCreateFails [''/tmp/b/dev1.tar''])
               (initial [''/tmp/b/dev1.tar'', ''dev2'', ''2''])))
     = [Exec ''podman'' [''load'', ''-i'', ''/tmp/b/dev1.tar''] (exampleLoadOutput, None),
        Exec ''distrobox-create''
          [''--name'', ''dev2'', ''--image'', ''myimg:123'', ''--home'',
           ''/home/u/.local/share/distrobox/homes/dev2'']
          (''cannot create'', Some ''exit status 1'')]
   \<and> last (trace (handleRestore (exampleWorld loadOkCreateFails [''/tmp/b/dev1.tar''])
                    (initial [''/tmp/b/dev1.tar'', ''dev2'', ''2''])))
     = LogInfo ''The loaded image 'myimg:123' was kept. You can try creating the container again manually or remove the image.''
   \<and> filter isEffect
       (trace (handleRestore (exampleWorld loadOkCleanupFails [''/tmp/b/dev1.tar''])
                 (initial [''/tmp/b/dev1.tar'', ''dev2'', ''1''])))
     = [Exec ''podman'' [''load'', ''-i'', ''/tmp/b/dev1.tar''] (exampleLoadOutput, None),
        Exec ''distrobox-create'' [''--name'', ''dev2'', ''--image'', ''myimg:123'']
          ([], None),
        Exec ''podman'' [''rmi'', ''myimg:123''] (''image is in use'', Some ''exit status 2'')]
   \<and> last (trace (handleRestore (exampleWorld loadOkCleanupFails [''/tmp/b/dev1.tar''])
                    (initial [''/tmp/b/dev1.tar'', ''dev2'', ''1''])))
     = LogSuccess (checkMark @ '' Container 'dev2' restored successfully!'')"
proof -
  let ?w = "exampleWorld loadOkCreateFails [''/tmp/b/dev1.tar'']"
  let ?v = "exampleWorld loadOkCleanupFails [''/tmp/b/dev1.tar'']"
  let ?s2 = "\<lambda>inp. \<lparr>stdin = inp,
                    trace = [LogInfo ''Please choose a backup file (.tar) to restore.''],
                    listening = False, blocked = False\<rparr>"
  let ?s7 = "\<lambda>inp. \<lparr>stdin = inp,
                    trace = [LogInfo ''Please choose a backup file (.tar) to restore.'',
                             LogInfo ''Loading image from '/tmp/b/dev1.tar'...'',
                             Spawn ''Loading...'',
                             Exec ''podman'' [''load'', ''-i'', ''/tmp/b/dev1.tar'']
                               (exampleLoadOutput, None),
                             Signal,
                             LogSuccess ''Image 'myimg:123' loaded successfully.''],
                    listening = False, blocked = False\<rparr>"
  have fl: "\<not> blocked (initial inp)" "\<not> listening (initial inp)" for inp
    by (simp_all add: initial_def)
  have ne: "''/tmp/b/dev1.tar'' \<noteq> []" by simp
  have img: "''myimg:123'' = findLoadedImage (Split exampleLoadOutput [CHR 0x0A])"
    "''myimg:123'' \<noteq> []"
    by code_simp+
  have sfw: "selectFile ?w ''Select Backup File'' ''*.tar''
               (logInfo ''Please choose a backup file (.tar) to restore.''
                  (initial [''/tmp/b/dev1.tar'', ''dev2'', ''2'']))
             = ((''/tmp/b/dev1.tar'', None), ?s2 [''dev2'', ''2''])"
    by code_simp
  have ldw: "combinedOutput ?w (containerRuntime ?w) [''load'', ''-i'', ''/tmp/b/dev1.tar'']
               = (exampleLoadOutput, None)"
    by (simp add: exampleWorld_def loadOkCreateFails_def)
  have s7w: "stdin (?s7 [''dev2'', ''2'']) = stdin (?s2 [''dev2'', ''2''])"
    "trace (?s7 [''dev2'', ''2'']) = trace (?s2 [''dev2'', ''2'']) @
       [LogInfo (''Loading image from '' @ [CHR 0x27] @ ''/tmp/b/dev1.tar'' @ [CHR 0x27]
                 @ ''...''),
        Spawn ''Loading...'',
        Exec (containerRuntime ?w) [''load'', ''-i'', ''/tmp/b/dev1.tar'']
          (exampleLoadOutput, None),
        Signal,
        LogSuccess (''Image '' @ [CHR 0x27] @ ''myimg:123'' @ [CHR 0x27]
                    @ '' loaded successfully.'')]"
    "\<not> blocked (?s7 [''dev2'', ''2''])" "\<not> listening (?s7 [''dev2'', ''2''])"
    by (simp_all add: exampleWorld_def)
  have nmw: "fst (readUserInput (?s7 [''dev2'', ''2''])) = ''dev2''" "''dev2'' \<noteq> []"
    by code_simp+
  have tyw: "selectItem 2 (snd (readUserInput (?s7 [''dev2'', ''2''])))
               = (2, ?s7 [])" "(2::nat) \<noteq> 0"
    by code_simp+
  have hdw: "(2::nat) = 2 \<longrightarrow> userHomeDir ?w = (''/home/u'', None)"
    by (simp add: exampleWorld_def)
  have crw: "combinedOutput ?w ''distrobox-create''
               ([''--name'', ''dev2'', ''--image'', ''myimg:123'']
                @ (if (2::nat) = 2
                   then [''--home'',
                         pathJoin ?w [''/home/u'', ''.local'', ''share'', ''distrobox'',
                                      ''homes'', ''dev2'']]
                   else []))
             = (''cannot create'', Some ''exit status 1'')"
    by (simp add: exampleWorld_def loadOkCreateFails_def)
  note r1 = handleRestore_creation [OF fl sfw ne ldw img s7w nmw tyw hdw refl refl,
      THEN conjunct1, THEN mp, OF crw]
  have evw: "containerRuntime ?w = ''podman''"
    "pathJoin ?w [''/home/u'', ''.local'', ''share'', ''distrobox'', ''homes'', ''dev2'']
       = ''/home/u/.local/share/distrobox/homes/dev2''"
    by (simp_all add: exampleWorld_def)
  from r1 [THEN conjunct2]
  have 1: "filter isEffect
             (trace (handleRestore ?w (initial [''/tmp/b/dev1.tar'', ''dev2'', ''2''])))
           = [Exec ''podman'' [''load'', ''-i'', ''/tmp/b/dev1.tar''] (exampleLoadOutput, None),
              Exec ''distrobox-create''
                [''--name'', ''dev2'', ''--image'', ''myimg:123'', ''--home'',
                 ''/home/u/.local/share/distrobox/homes/dev2'']
                (''cannot create'', Some ''exit status 1'')]"
    unfolding evw by simp
  from r1 [THEN conjunct1]
  have 2: "last (trace (handleRestore ?w (initial [''/tmp/b/dev1.tar'', ''dev2'', ''2''])))
           = LogInfo ''The loaded image 'myimg:123' was kept. You can try creating the container again manually or remove the image.''"
    by simp
  have sfv: "selectFile ?v ''Select Backup File'' ''*.tar''
               (logInfo ''Please choose a backup file (.tar) to restore.''
                  (initial [''/tmp/b/dev1.tar'', ''dev2'', ''1'']))
             = ((''/tmp/b/dev1.tar'', None), ?s2 [''dev2'', ''1''])"
    by code_simp
  have ldv: "combinedOutput ?v (containerRuntime ?v) [''load'', ''-i'', ''/tmp/b/dev1.tar'']
               = (exampleLoadOutput, None)"
    by (simp add: exampleWorld_def loadOkCleanupFails_def)
  have s7v: "stdin (?s7 [''dev2'', ''1'']) = stdin (?s2 [''dev2'', ''1''])"
    "trace (?s7 [''dev2'', ''1'']) = trace (?s2 [''dev2'', ''1'']) @
       [LogInfo (''Loading image from '' @ [CHR 0x27] @ ''/tmp/b/dev1.tar'' @ [CHR 0x27]
                 @ ''...''),
        Spawn ''Loading...'',
        Exec (containerRuntime ?v) [''load'', ''-i'', ''/tmp/b/dev1.tar'']
          (exampleLoadOutput, None),
        Signal,
        LogSuccess (''Image '' @ [CHR 0x27] @ ''myimg:123'' @ [CHR 0x27]
                    @ '' loaded successfully.'')]"
    "\<not> blocked (?s7 [''dev2'', ''1''])" "\<not> listening (?s7 [''dev2'', ''1''])"
    by (simp_all add: exampleWorld_def)
  have nmv: "fst (readUserInput (?s7 [''dev2'', ''1''])) = ''dev2''"
    by code_simp
  have tyv: "selectItem 2 (snd (readUserInput (?s7 [''dev2'', ''1''])))
               = (1, ?s7 [])" "(1::nat) \<noteq> 0"
    by code_simp+
  have hdv: "(1::nat) = 2 \<longrightarrow> userHomeDir ?v = ([], None)"
    by simp
  have crv: "combinedOutput ?v ''distrobox-create''
               ([''--name'', ''dev2'', ''--image'', ''myimg:123'']
                @ (if (1::nat) = 2
                   then [''--home'',
                         pathJoin ?v [[], ''.local'', ''share'', ''distrobox'',
                                      ''homes'', ''dev2'']]
                   else []))
             = ([], None)"
    by (simp add: exampleWorld_def loadOkCleanupFails_def)
  note r2 = handleRestore_creation [OF fl sfv ne ldv img s7v nmv nmw(2) tyv hdv refl refl,
      THEN conjunct2, THEN mp, OF crv]
  have evv: "containerRuntime ?v = ''podman''"
    "combinedOutput ?v ''podman'' [''rmi'', ''myimg:123'']
       = (''image is in use'', Some ''exit status 2'')"
    by (simp_all add: exampleWorld_def loadOkCleanupFails_def)
  from r2 [THEN conjunct2]
  have 3: "filter isEffect
             (trace (handleRestore ?v (initial [''/tmp/b/dev1.tar'', ''dev2'', ''1''])))
           = [Exec ''podman'' [''load'', ''-i'', ''/tmp/b/dev1.tar''] (exampleLoadOutput, None),
              Exec ''distrobox-create'' [''--name'', ''dev2'', ''--image'', ''myimg:123'']
                ([], None),
              Exec ''podman'' [''rmi'', ''myimg:123'']
                (''image is in use'', Some ''exit status 2'')]"
    unfolding evv by simp
  from r2 [THEN conjunct1]
  have 4: "last (trace (handleRestore ?v (initial [''/tmp/b/dev1.tar'', ''dev2'', ''1''])))
           = LogSuccess (checkMark @ '' Container 'dev2' restored successfully!'')"
    by simp
  from 1 2 3 4 show ?thesis by blast
qed

text \<open>
  Claim C10. Let Restore have loaded the archive and found the name of the image. It
  removes the loaded image again before returning in three cases: the name entered for the
  new container is empty; the choice of the kind of container is left blank; an isolated
  container is chosen and the home directory of the user cannot be determined. In each
  case the removal is the last event of the run of \<open>handleRestore\<close>, the load and the
  removal are its only effects, and the result of the removal is not inspected.
\<close>

theorem handleRestore_aborts_remove_image:
  assumes nb: "\<not> blocked s0" and nl: "\<not> listening s0"
    and sf: "selectFile w ''Select Backup File'' ''*.tar''
               (logInfo ''Please choose a backup file (.tar) to restore.'' s0)
             = ((backupFile, None), s2)"
    and ne: "backupFile \<noteq> []"
    and ld: "combinedOutput w (containerRuntime w) [''load'', ''-i'', backupFile]
             = (out, None)"
    and img: "loadedImage = findLoadedImage (Split out [CHR 0x0A])" "loadedImage \<noteq> []"
    and s7: "stdin s7 = stdin s2"
      "trace s7 = trace s2 @
         [LogInfo (''Loading image from '' @ [CHR 0x27] @ backupFile @ [CHR 0x27] @ ''...''),
          Spawn ''Loading...'',
          Exec (containerRuntime w) [''load'', ''-i'', backupFile] (out, None),
          Signal,
          LogSuccess (''Image '' @ [CHR 0x27] @ loadedImage @ [CHR 0x27]
                      @ '' loaded successfully.'')]"
      "\<not> blocked s7" "\<not> listening s7"
  shows "(fst (readUserInput s7) = [] \<longrightarrow>
            trace (handleRestore w s0)
              = trace s7 @
                [LogWarning ''Container name cannot be empty. Aborting.'',
                 Exec (containerRuntime w) [''rmi'', loadedImage]
                   (combinedOutput w (containerRuntime w) [''rmi'', loadedImage])]
            \<and> filter isEffect (trace (handleRestore w s0))
                = filter isEffect (trace s2) @
                  [Exec (containerRuntime w) [''load'', ''-i'', backupFile] (out, None),
                   Exec (containerRuntime w) [''rmi'', loadedImage]
                     (combinedOutput w (containerRuntime w) [''rmi'', loadedImage])])
       \<and> (fst (readUserInput s7) \<noteq> [] \<and> selectItem 2 (snd (readUserInput s7)) = (0, s3) \<longrightarrow>
            trace (handleRestore w s0)
              = trace s3 @
                [Exec (containerRuntime w) [''rmi'', loadedImage]
                   (combinedOutput w (containerRuntime w) [''rmi'', loadedImage])]
            \<and> filter isEffect (trace (handleRestore w s0))
                = filter isEffect (trace s2) @
                  [Exec (containerRuntime w) [''load'', ''-i'', backupFile] (out, None),
                   Exec (containerRuntime w) [''rmi'', loadedImage]
                     (combinedOutput w (containerRuntime w) [''rmi'', loadedImage])])
       \<and> (fst (readUserInput s7) \<noteq> [] \<and> selectItem 2 (snd (readUserInput s7)) = (2, s3)
            \<and> userHomeDir w = (homeDir, Some e) \<longrightarrow>
            trace (handleRestore w s0)
              = trace s3 @
                [Spawn ''Creating container...'',
                 Signal,
                 LogError ''Could not determine user home directory. Aborting isolated restore.'',
                 Exec (containerRuntime w) [''rmi'', loadedImage]
                   (combinedOutput w (containerRuntime w) [''rmi'', loadedImage])]
            \<and> filter isEffect (trace (handleRestore w s0))
                = filter isEffect (trace s2) @
                  [Exec (containerRuntime w) [''load'', ''-i'', backupFile] (out, None),
                   Exec (containerRuntime w) [''rmi'', loadedImage]
                     (combinedOutput w (containerRuntime w) [''rmi'', loadedImage])])"
proof -
  note run = handleRestore_reaches_restoreImage [OF nb nl sf ne ld img s7]
  note ab = restoreImage_aborts_remove_image [OF s7(3,4), where w = w
      and loadedImage = loadedImage and ?s2.0 = s3 and homeDir = homeDir and e = e]
  have eff: "filter isEffect (trace s7)
               = filter isEffect (trace s2) @
                 [Exec (containerRuntime w) [''load'', ''-i'', backupFile] (out, None)]"
    using s7(2) by simp
  from ab eff show ?thesis unfolding run by auto
qed

theorem handleRestore_aborts_remove_image_witness:
  "filter isEffect
     (trace (handleRestore (exampleWorld loadOk [''/tmp/b/dev1.tar''])
               (initial [''/tmp/b/dev1.tar'', ''  ''])))
     = [Exec ''podman'' [''load'', ''-i'', ''/tmp/b/dev1.tar''] (exampleLoadOutput, None),
        Exec ''podman'' [''rmi'', ''myimg:123''] ([], None)]
   \<and> last (trace (handleRestore (exampleWorld loadOk [''/tmp/b/dev1.tar''])
                    (initial [''/tmp/b/dev1.tar'', ''  ''])))
     = Exec ''podman'' [''rmi'', ''myimg:123''] ([], None)
   \<and> filter isEffect
       (trace (handleRestore (exampleWorld loadOk [''/tmp/b/dev1.tar''])
                 (initial [''/tmp/b/dev1.tar'', ''dev2'', []])))
     = [Exec ''podman'' [''load'', ''-i'', ''/tmp/b/dev1.tar''] (exampleLoadOutput, None),
        Exec ''podman'' [''rmi'', ''myimg:123''] ([], None)]
   \<and> last (trace (handleRestore (exampleWorld loadOk [''/tmp/b/dev1.tar''])
                    (initial [''/tmp/b/dev1.tar'', ''dev2'', []])))
     = Exec ''podman'' [''rmi'', ''myimg:123''] ([], None)
   \<and> filter isEffect
       (trace (handleRestore
                 ((exampleWorld loadOk [''/tmp/b/dev1.tar''])
                    \<lparr>userHomeDir := ([], Some ''$HOME is not defined'')\<rparr>)
                 (initial [''/tmp/b/dev1.tar'', ''dev2'', ''2''])))
     = [Exec ''podman'' [''load'', ''-i'', ''/tmp/b/dev1.tar''] (exampleLoadOutput, None),
        Exec ''podman'' [''rmi'', ''myimg:123''] ([], None)]
   \<and> last (trace (handleRestore
                    ((exampleWorld loadOk [''/tmp/b/dev1.tar''])
                       \<lparr>userHomeDir := ([], Some ''$HOME is not defined'')\<rparr>)
                    (initial [''/tmp/b/dev1.tar'', ''dev2'', ''2''])))
     = Exec ''podman'' [''rmi'', ''myimg:123''] ([], None)"
proof -
  let ?w = "exampleWorld loadOk [''/tmp/b/dev1.tar'']"
  let ?v = "(exampleWorld loadOk [''/tmp/b/dev1.tar''])
              \<lparr>userHomeDir := ([], Some ''$HOME is not defined'')\<rparr>"
  let ?s2 = "\<lambda>inp. \<lparr>stdin = inp,
                    trace = [LogInfo ''Please choose a backup file (.tar) to restore.''],
                    listening = False, blocked = False\<rparr>"
  let ?s7 = "\<lambda>inp. \<lparr>stdin = inp,
                    trace = [LogInfo ''Please choose a backup file (.tar) to restore.'',
                             LogInfo ''Loading image from '/tmp/b/dev1.tar'...'',
                             Spawn ''Loading...'',
                             Exec ''podman'' [''load'', ''-i'', ''/tmp/b/dev1.tar'']
                               (exampleLoadOutput, None),
                             Signal,
                             LogSuccess ''Image 'myimg:123' loaded successfully.''],
                    listening = False, blocked = False\<rparr>"
  have fl: "\<not> blocked (initial inp)" "\<not> listening (initial inp)" for inp
    by (simp_all add: initial_def)
  have ne: "''/tmp/b/dev1.tar'' \<noteq> []" by simp
  have img: "''myimg:123'' = findLoadedImage (Split exampleLoadOutput [CHR 0x0A])"
    "''myimg:123'' \<noteq> []"
    by code_simp+
  have ev: "containerRuntime ?w = ''podman''" "containerRuntime ?v = ''podman''"
    "combinedOutput ?w ''podman'' [''rmi'', ''myimg:123''] = ([], None)"
    "combinedOutput ?v ''podman'' [''rmi'', ''myimg:123''] = ([], None)"
    by (simp_all add: exampleWorld_def loadOk_def)
  have ldw: "combinedOutput ?w (containerRuntime ?w) [''load'', ''-i'', ''/tmp/b/dev1.tar'']
               = (exampleLoadOutput, None)"
    by (simp add: exampleWorld_def loadOk_def)
  have ldv: "combinedOutput ?v (containerRuntime ?v) [''load'', ''-i'', ''/tmp/b/dev1.tar'']
               = (exampleLoadOutput, None)"
    by (simp add: exampleWorld_def loadOk_def)
  have s7w: "stdin (?s7 inp) = stdin (?s2 inp)"
    "trace (?s7 inp) = trace (?s2 inp) @
       [LogInfo (''Loading image from '' @ [CHR 0x27] @ ''/tmp/b/dev1.tar'' @ [CHR 0x27]
                 @ ''...''),
        Spawn ''Loading...'',
        Exec (containerRuntime ?w) [''load'', ''-i'', ''/tmp/b/dev1.tar'']
          (exampleLoadOutput, None),
        Signal,
        LogSuccess (''Image '' @ [CHR 0x27] @ ''myimg:123'' @ [CHR 0x27]
                    @ '' loaded successfully.'')]"
    "\<not> blocked (?s7 inp)" "\<not> listening (?s7 inp)" for inp
    by (simp_all add: exampleWorld_def)
  have s7v: "stdin (?s7 inp) = stdin (?s2 inp)"
    "trace (?s7 inp) = trace (?s2 inp) @
       [LogInfo (''Loading image from '' @ [CHR 0x27] @ ''/tmp/b/dev1.tar'' @ [CHR 0x27]
                 @ ''...''),
        Spawn ''Loading...'',
        Exec (containerRuntime ?v) [''load'', ''-i'', ''/tmp/b/dev1.tar'']
          (exampleLoadOutput, None),
        Signal,
        LogSuccess (''Image '' @ [CHR 0x27] @ ''myimg:123'' @ [CHR 0x27]
                    @ '' loaded successfully.'')]"
    "\<not> blocked (?s7 inp)" "\<not> listening (?s7 inp)" for inp
    by (simp_all add: exampleWorld_def)
  have sfa: "selectFile ?w ''Select Backup File'' ''*.tar''
               (logInfo ''Please choose a backup file (.tar) to restore.''
                  (initial [''/tmp/b/dev1.tar'', ''  '']))
             = ((''/tmp/b/dev1.tar'', None), ?s2 [''  ''])"
    by code_simp
  have a: "fst (readUserInput (?s7 [''  ''])) = []" by code_simp
  note ra = handleRestore_aborts_remove_image [OF fl sfa ne ldw img s7w,
      THEN conjunct1, THEN mp, OF a]
  from ra [THEN conjunct2]
  have 1: "filter isEffect
             (trace (handleRestore ?w (initial [''/tmp/b/dev1.tar'', ''  ''])))
           = [Exec ''podman'' [''load'', ''-i'', ''/tmp/b/dev1.tar''] (exampleLoadOutput, None),
              Exec ''podman'' [''rmi'', ''myimg:123''] ([], None)]"
    unfolding ev by simp
  from ra [THEN conjunct1]
  have 2: "last (trace (handleRestore ?w (initial [''/tmp/b/dev1.tar'', ''  ''])))
           = Exec ''podman'' [''rmi'', ''myimg:123''] ([], None)"
    unfolding ev by simp
  have sfb: "selectFile ?w ''Select Backup File'' ''*.tar''
               (logInfo ''Please choose a backup file (.tar) to restore.''
                  (initial [''/tmp/b/dev1.tar'', ''dev2'', []]))
             = ((''/tmp/b/dev1.tar'', None), ?s2 [''dev2'', []])"
    by code_simp
  have b: "fst (readUserInput (?s7 [''dev2'', []])) \<noteq> []
           \<and> selectItem 2 (snd (readUserInput (?s7 [''dev2'', []]))) = (0, ?s7 [])"
    by code_simp
  note rb = handleRestore_aborts_remove_image [OF fl sfb ne ldw img s7w,
      THEN conjunct2, THEN conjunct1, THEN mp, OF b]
  from rb [THEN conjunct2]
  have 3: "filter isEffect
             (trace (handleRestore ?w (initial [''/tmp/b/dev1.tar'', ''dev2'', []])))
           = [Exec ''podman'' [''load'', ''-i'', ''/tmp/b/dev1.tar''] (exampleLoadOutput, None),
              Exec ''podman'' [''rmi'', ''myimg:123''] ([], None)]"
    unfolding ev by simp
  from rb [THEN conjunct1]
  have 4: "last (trace (handleRestore ?w (initial [''/tmp/b/dev1.tar'', ''dev2'', []])))
           = Exec ''podman'' [''rmi'', ''myimg:123''] ([], None)"
    unfolding ev by simp
  have sfc: "selectFile ?v ''Select Backup File'' ''*.tar''
               (logInfo ''Please choose a backup file (.tar) to restore.''
                  (initial [''/tmp/b/dev1.tar'', ''dev2'', ''2'']))
             = ((''/tmp/b/dev1.tar'', None), ?s2 [''dev2'', ''2''])"
    by code_simp
  have c: "fst (readUserInput (?s7 [''dev2'', ''2''])) \<noteq> []
           \<and> selectItem 2 (snd (readUserInput (?s7 [''dev2'', ''2'']))) = (2, ?s7 [])
           \<and> userHomeDir ?v = ([], Some ''$HOME is not defined'')"
    by code_simp
  note rc = handleRestore_aborts_remove_image [OF fl sfc ne ldv img s7v,
      THEN conjunct2, THEN conjunct2, THEN mp, OF c]
  from rc [THEN conjunct2]
  have 5: "filter isEffect
             (trace (handleRestore ?v (initial [''/tmp/b/dev1.tar'', ''dev2'', ''2''])))
           = [Exec ''podman'' [''load'', ''-i'', ''/tmp/b/dev1.tar''] (exampleLoadOutput, None),
              Exec ''podman'' [''rmi'', ''myimg:123''] ([], None)]"
    unfolding ev by simp
  from rc [THEN conjunct1]
  have 6: "last (trace (handleRestore ?v (initial [''/tmp/b/dev1.tar'', ''dev2'', ''2''])))
           = Exec ''podman'' [''rmi'', ''myimg:123''] ([], None)"
    unfolding ev by simp
  from 1 2 3 4 5 6 show ?thesis by blast
qed

end
